theory Spec2Isabelle
  imports Main "HOL-Library.Word"
begin

unbundle bit_operations_syntax

section \<open>Build-time constants (constants\_config\_tsrt.h)\<close>

definition SAMPLE_RATE :: nat where "SAMPLE_RATE = 16000"
definition SEGMENT_DURATION :: nat where "SEGMENT_DURATION = 50"
definition MS_PER_SEC :: nat where "MS_PER_SEC = 1000"

definition SAMPLES_PER_SEGMENT :: nat where
  "SAMPLES_PER_SEGMENT = SAMPLE_RATE div MS_PER_SEC * SEGMENT_DURATION"

definition SAMPLES_PER_HALF_SEGMENT :: nat where
  "SAMPLES_PER_HALF_SEGMENT = SAMPLES_PER_SEGMENT div 2"

definition AUDIO_BUFFER_SIZE :: nat where "AUDIO_BUFFER_SIZE = 16"

definition VOCAL_EMBEDDINGS_SIZE :: nat where "VOCAL_EMBEDDINGS_SIZE = 512"

section \<open>Status codes (status\_codes\_tsrt.h)\<close>

datatype tsrt_status_code =
    SUCCESS
  | INSUFFICIENT_MEMORY
  | IO_ERROR
  | INVALID_ARGUMENT
  | CONFIGURATION_ERROR
  | RUNTIME_ERROR
  | OUT_OF_RANGE_ERROR
  | TRY_AGAIN
  | INVALID_OPERATION
  | UNKNOWN_ERROR

section \<open>Ring buffer (ring\_buffer\_tsrt.h)\<close>

text \<open>
  The indices of the ring buffer are \<open>size_t\<close> values. The only arithmetic on them is
  \<open>index + 1\<close> with \<open>index < Size\<close> and \<open>Size - 1\<close> with \<open>0 < Size\<close> (the
  \<open>static_assert\<close> of the class), neither of which can wrap around, so they are
  natural numbers here; \<open>AND\<close> is the bitwise conjunction of the binary digits.
\<close>

definition is_power_of_two :: "nat \<Rightarrow> bool" where
  "is_power_of_two Size \<longleftrightarrow> Size \<noteq> 0 \<and> Size AND (Size - 1) = 0"

text \<open>The two branches of \<open>wrap_index\<close>; \<open>if constexpr\<close> compiles exactly one of them.\<close>

definition wrap_index_mask :: "nat \<Rightarrow> nat \<Rightarrow> nat" where
  "wrap_index_mask Size index = index AND (Size - 1)"

definition wrap_index_mod :: "nat \<Rightarrow> nat \<Rightarrow> nat" where
  "wrap_index_mod Size index = index mod Size"

definition wrap_index :: "nat \<Rightarrow> nat \<Rightarrow> nat" where
  "wrap_index Size index =
     (if is_power_of_two Size then wrap_index_mask Size index else wrap_index_mod Size index)"

text \<open>
  \<open>Ring_Buffer<T, ThreadSafe, Size>\<close>: the backing array, \<open>head\<close> (next write position)
  and \<open>tail\<close> (next read position). The template parameter \<open>Size\<close> is an argument of
  every operation. The constructor value-initialises the \<open>Size\<close> slots; \<open>d\<close> is the
  default value of the element type.
\<close>

record 'a Ring_Buffer =
  buffer :: "'a list"
  head :: nat
  tail :: nat

definition Ring_Buffer_init :: "nat \<Rightarrow> 'a \<Rightarrow> 'a Ring_Buffer" where
  "Ring_Buffer_init Size d = \<lparr> buffer = replicate Size d, head = 0, tail = 0 \<rparr>"

text \<open>
  \<open>push\<close> for an element type with value semantics: the slot at \<open>head\<close> receives the
  value, \<open>head\<close> advances, and when it runs into \<open>tail\<close> the \<open>tail\<close> advances too.
\<close>

definition push :: "nat \<Rightarrow> 'a \<Rightarrow> 'a Ring_Buffer \<Rightarrow> 'a Ring_Buffer" where
  "push Size v rb =
     (let buf = (buffer rb)[head rb := v];
          h = wrap_index Size (head rb + 1);
          t = (if h = tail rb then wrap_index Size (tail rb + 1) else tail rb)
      in \<lparr> buffer = buf, head = h, tail = t \<rparr>)"

text \<open>\<open>pop\<close>: \<open>std::nullopt\<close> when \<open>head == tail\<close>, otherwise the value at \<open>tail\<close>.\<close>

definition pop :: "nat \<Rightarrow> 'a Ring_Buffer \<Rightarrow> 'a option \<times> 'a Ring_Buffer" where
  "pop Size rb =
     (if head rb = tail rb then (None, rb)
      else (Some (buffer rb ! tail rb), rb\<lparr> tail := wrap_index Size (tail rb + 1) \<rparr>))"

definition clear :: "'a Ring_Buffer \<Rightarrow> 'a Ring_Buffer" where
  "clear rb = rb\<lparr> head := 0, tail := 0 \<rparr>"

text \<open>A sequence of pushes, and a sequence of \<open>k\<close> pops with their results in order.\<close>

fun push_all :: "nat \<Rightarrow> 'a list \<Rightarrow> 'a Ring_Buffer \<Rightarrow> 'a Ring_Buffer" where
  "push_all Size [] rb = rb"
| "push_all Size (v # vs) rb = push_all Size vs (push Size v rb)"

fun pop_n :: "nat \<Rightarrow> nat \<Rightarrow> 'a Ring_Buffer \<Rightarrow> 'a option list" where
  "pop_n Size 0 rb = []"
| "pop_n Size (Suc k) rb = (case pop Size rb of (r, rb') \<Rightarrow> r # pop_n Size k rb')"


text \<open>
  Any interleaving of \<open>push\<close> and \<open>pop\<close> calls, and the values that repeated pops
  return before the first \<open>std::nullopt\<close> (at most \<open>k\<close> pops are attempted).
\<close>

datatype 'a rb_op = Push 'a | Pop

fun apply_ops :: "nat \<Rightarrow> 'a rb_op list \<Rightarrow> 'a Ring_Buffer \<Rightarrow> 'a Ring_Buffer" where
  "apply_ops Size [] rb = rb"
| "apply_ops Size (Push v # ops) rb = apply_ops Size ops (push Size v rb)"
| "apply_ops Size (Pop # ops) rb = apply_ops Size ops (snd (pop Size rb))"

fun drain :: "nat \<Rightarrow> nat \<Rightarrow> 'a Ring_Buffer \<Rightarrow> 'a list" where
  "drain Size 0 rb = []"
| "drain Size (Suc k) rb =
     (case pop Size rb of (None, rb') \<Rightarrow> [] | (Some v, rb') \<Rightarrow> v # drain Size k rb')"

section \<open>Exceptions and memory\<close>

text \<open>
  How a call can end other than by returning: a \<open>Tsrt_Exception\<close> with its status code
  and message, \<open>std::bad_alloc\<close>, \<open>std::terminate\<close> (an exception leaving a
  \<open>noexcept\<close> function), or an access outside a live array.
\<close>

type_synonym PaError = int

datatype message = Text string | Pa_GetErrorText PaError | av_error string int

datatype abort =
    Tsrt_Exception tsrt_status_code message
  | bad_alloc
  | terminate
  | undefined_behaviour

type_synonym log_entry = "tsrt_status_code \<times> message"

text \<open>
  A sample is the bit pattern of a 32-bit float; the code here only zero-fills and copies
  samples. A time point is a tick count of the system clock; every call of
  \<open>system_clock::now()\<close> is an argument \<open>now\<close> of the operation that makes it.

  The heap holds the arrays made by \<open>std::make_unique<float[]>\<close>: the address of an
  array is its index, \<open>Some xs\<close> is a live array with contents \<open>xs\<close> and \<open>None\<close> one
  that has been freed. Addresses are never reused, so a pointer into a freed or foreign
  array stays recognisable. A \<open>float*\<close> is null or an array with an element offset.
  An allocation of samples is taken to succeed; where the behaviour on a failing
  allocation matters (\<open>add_speaker\<close>), the outcome of the allocation is an argument.
\<close>

type_synonym sample = "32 word"
type_synonym time_point = int
type_synonym addr = nat
type_synonym heap = "sample list option list"

datatype float_ptr = nullptr | Ptr addr nat

definition make_unique :: "nat \<Rightarrow> heap \<Rightarrow> addr \<times> heap" where
  "make_unique n h = (length h, h @ [Some (replicate n 0)])"

text \<open>Destroying or overwriting a \<open>unique_ptr\<close> frees the array it owns.\<close>

definition release :: "addr option \<Rightarrow> heap \<Rightarrow> heap" where
  "release p h = (case p of None \<Rightarrow> h | Some a \<Rightarrow> h[a := None])"

definition load :: "float_ptr \<Rightarrow> nat \<Rightarrow> heap \<Rightarrow> sample list option" where
  "load p n h =
     (case p of
        nullptr \<Rightarrow> None
      | Ptr a i \<Rightarrow>
          if a < length h then
            (case h ! a of
               None \<Rightarrow> None
             | Some xs \<Rightarrow> if i + n \<le> length xs then Some (take n (drop i xs)) else None)
          else None)"

definition store :: "float_ptr \<Rightarrow> sample list \<Rightarrow> heap \<Rightarrow> heap option" where
  "store p vs h =
     (case p of
        nullptr \<Rightarrow> None
      | Ptr a i \<Rightarrow>
          if a < length h then
            (case h ! a of
               None \<Rightarrow> None
             | Some xs \<Rightarrow>
                 if i + length vs \<le> length xs
                 then Some (h[a := Some (take i xs @ vs @ drop (i + length vs) xs)])
                 else None)
          else None)"

text \<open>\<open>memcpy(dst, src, n * sizeof(float))\<close>; \<open>None\<close> is an access outside a live array.\<close>

definition memcpy :: "float_ptr \<Rightarrow> float_ptr \<Rightarrow> nat \<Rightarrow> heap \<Rightarrow> heap option" where
  "memcpy dst src n h = (case load src n h of None \<Rightarrow> None | Some vs \<Rightarrow> store dst vs h)"

section \<open>Audio segments (audio\_segment\_tsrt.h)\<close>

record Audio_Segment =
  audio :: "addr option"
  midpoint :: float_ptr
  timestamp :: time_point
  seg_size :: nat

definition get_audio :: "Audio_Segment \<Rightarrow> float_ptr" where
  "get_audio s = (case audio s of None \<Rightarrow> nullptr | Some a \<Rightarrow> Ptr a 0)"

definition get_midpoint :: "Audio_Segment \<Rightarrow> float_ptr" where
  "get_midpoint s = midpoint s"

definition get_timestamp :: "Audio_Segment \<Rightarrow> time_point" where
  "get_timestamp s = timestamp s"

definition get_size :: "Audio_Segment \<Rightarrow> nat" where
  "get_size s = seg_size s"

definition set_timestamp :: "time_point \<Rightarrow> Audio_Segment \<Rightarrow> Audio_Segment" where
  "set_timestamp t s = s\<lparr> timestamp := t \<rparr>"

text \<open>The private \<open>swap\<close>: it exchanges \<open>audio\<close>, \<open>timestamp\<close> and \<open>size\<close>.\<close>

definition Audio_Segment_swap :: "Audio_Segment \<Rightarrow> Audio_Segment \<Rightarrow> Audio_Segment \<times> Audio_Segment" where
  "Audio_Segment_swap this other =
     (this\<lparr> audio := audio other, timestamp := timestamp other, seg_size := seg_size other \<rparr>,
      other\<lparr> audio := audio this, timestamp := timestamp this, seg_size := seg_size this \<rparr>)"

text \<open>\<open>Audio_Segment()\<close> and \<open>Audio_Segment(size_t size)\<close>.\<close>

definition Audio_Segment_default :: "time_point \<Rightarrow> Audio_Segment" where
  "Audio_Segment_default now =
     \<lparr> audio = None, midpoint = nullptr, timestamp = now, seg_size = 0 \<rparr>"

definition Audio_Segment_sized :: "time_point \<Rightarrow> nat \<Rightarrow> heap \<Rightarrow> Audio_Segment \<times> heap" where
  "Audio_Segment_sized now n h =
     (case make_unique n h of
        (a, h') \<Rightarrow>
          (\<lparr> audio = Some a, midpoint = Ptr a (n div 2), timestamp = now, seg_size = n \<rparr>, h'))"

text \<open>
  The copy constructor allocates \<open>other.size\<close> floats and copies \<open>other\<close>'s samples with
  \<open>std::copy\<close>, which reads nothing when the range is empty.
\<close>

definition Audio_Segment_copy :: "Audio_Segment \<Rightarrow> heap \<Rightarrow> abort + Audio_Segment \<times> heap" where
  "Audio_Segment_copy other h =
     (case make_unique (seg_size other) h of
        (a, h1) \<Rightarrow>
          let new = \<lparr> audio = Some a, midpoint = Ptr a (seg_size other div 2),
                      timestamp = timestamp other, seg_size = seg_size other \<rparr>
          in if seg_size other = 0 then Inr (new, h1)
             else (case memcpy (Ptr a 0) (get_audio other) (seg_size other) h1 of
                     None \<Rightarrow> Inl undefined_behaviour
                   | Some h2 \<Rightarrow> Inr (new, h2)))"

text \<open>
  The move constructor takes over the array and copies the other three members; the
  source keeps its \<open>midpoint\<close>, \<open>timestamp\<close> and \<open>size\<close> and loses the array. The result
  is the new segment and the moved-from source.
\<close>

definition Audio_Segment_move :: "Audio_Segment \<Rightarrow> Audio_Segment \<times> Audio_Segment" where
  "Audio_Segment_move other =
     (\<lparr> audio = audio other, midpoint = midpoint other,
        timestamp = timestamp other, seg_size = seg_size other \<rparr>,
      other\<lparr> audio := None \<rparr>)"

text \<open>
  Copy assignment between two different objects: copy-construct \<open>temp\<close>, swap, destroy
  \<open>temp\<close>. (Assigning an object to itself changes nothing.) Move assignment is the swap.
\<close>

definition Audio_Segment_copy_assign ::
  "Audio_Segment \<Rightarrow> Audio_Segment \<Rightarrow> heap \<Rightarrow> abort + Audio_Segment \<times> heap" where
  "Audio_Segment_copy_assign this other h =
     (case Audio_Segment_copy other h of
        Inl e \<Rightarrow> Inl e
      | Inr (temp, h1) \<Rightarrow>
          (case Audio_Segment_swap this temp of
             (this', temp') \<Rightarrow> Inr (this', release (audio temp') h1)))"

definition Audio_Segment_move_assign ::
  "Audio_Segment \<Rightarrow> Audio_Segment \<Rightarrow> Audio_Segment \<times> Audio_Segment" where
  "Audio_Segment_move_assign this other = Audio_Segment_swap this other"

text \<open>\<open>operator==\<close>.\<close>

definition Audio_Segment_eq :: "Audio_Segment \<Rightarrow> Audio_Segment \<Rightarrow> bool" where
  "Audio_Segment_eq this other \<longleftrightarrow> timestamp this = timestamp other"

definition reset_audio :: "Audio_Segment \<Rightarrow> heap \<Rightarrow> Audio_Segment \<times> heap" where
  "reset_audio this h =
     (case make_unique (seg_size this) h of
        (a, h1) \<Rightarrow>
          (this\<lparr> audio := Some a, midpoint := Ptr a (seg_size this div 2) \<rparr>,
           release (audio this) h1))"

definition lazy_initialize ::
  "time_point \<Rightarrow> nat \<Rightarrow> Audio_Segment \<Rightarrow> heap \<Rightarrow> abort + Audio_Segment \<times> heap" where
  "lazy_initialize now n this h =
     (if n = 0
      then Inl (Tsrt_Exception INVALID_ARGUMENT (Text ''Audio segment size must be greater than 0.''))
      else (case make_unique n h of
              (a, h1) \<Rightarrow>
                Inr (\<lparr> audio = Some a, midpoint = Ptr a (n div 2), timestamp = now, seg_size = n \<rparr>,
                     release (audio this) h1)))"

text \<open>
  The invariant of the data model: the segment owns an array and \<open>midpoint\<close> is the
  address \<open>size / 2\<close> elements into that array.
\<close>

definition midpoint_at_half :: "Audio_Segment \<Rightarrow> bool" where
  "midpoint_at_half s =
     (case audio s of None \<Rightarrow> False | Some a \<Rightarrow> midpoint s = Ptr a (seg_size s div 2))"


section \<open>The ring buffer of audio segments\<close>

text \<open>
  \<open>Ring_Buffer<Audio_Segment, true, Size>::push(T value)\<close>. The parameter \<open>value\<close> has
  been constructed by the caller. The slot at \<open>head\<close> is lazily initialised with
  \<open>value.get_size()\<close>, then move-assigned from \<open>value\<close>; at the end \<open>value\<close> is
  destroyed. \<open>push\<close> is \<open>noexcept\<close>, so the exception of \<open>lazy_initialize\<close> ends in
  \<open>std::terminate\<close>.
\<close>

definition push_Audio_Segment ::
  "nat \<Rightarrow> time_point \<Rightarrow> Audio_Segment \<Rightarrow> Audio_Segment Ring_Buffer \<Rightarrow> heap
     \<Rightarrow> abort + Audio_Segment Ring_Buffer \<times> heap" where
  "push_Audio_Segment Size now val rb h =
     (if head rb < length (buffer rb) then
        (case lazy_initialize now (get_size val) (buffer rb ! head rb) h of
           Inl e \<Rightarrow> Inl terminate
         | Inr (slot, h1) \<Rightarrow>
             (case Audio_Segment_move_assign slot val of
                (slot', val') \<Rightarrow> Inr (push Size slot' rb, release (audio val') h1)))
      else Inl undefined_behaviour)"

text \<open>
  \<open>pop\<close>: the value is move-constructed from the slot at \<open>tail\<close> (and moved again into
  the \<open>std::optional\<close>, which changes none of its members); the slot loses its array.
\<close>

definition pop_Audio_Segment ::
  "nat \<Rightarrow> Audio_Segment Ring_Buffer \<Rightarrow> Audio_Segment option \<times> Audio_Segment Ring_Buffer" where
  "pop_Audio_Segment Size rb =
     (if head rb = tail rb then (None, rb)
      else (case Audio_Segment_move (buffer rb ! tail rb) of
              (val, slot') \<Rightarrow>
                (Some val,
                 rb\<lparr> buffer := (buffer rb)[tail rb := slot'],
                     tail := wrap_index Size (tail rb + 1) \<rparr>)))"

section \<open>Speaker profiles (speaker\_id\_tsrt.h)\<close>

text \<open>
  A \<open>Speaker_ID\<close> owns its embedding array, which nothing else points into, so the array
  is a list. The copy constructor and the copy assignment set \<open>name\<close> and \<open>vector\<close> and
  leave \<open>vector_size\<close> as it was; for a constructor that is the indeterminate content of
  the new object's memory, the argument \<open>junk\<close>. \<open>alloc_ok\<close> says whether the allocation
  of the copy succeeds.
\<close>

record Speaker_ID =
  name :: string
  vector :: "sample list"
  vector_size :: nat

definition Speaker_ID_init :: "string \<Rightarrow> sample list \<Rightarrow> nat \<Rightarrow> Speaker_ID" where
  "Speaker_ID_init n v vs = \<lparr> name = n, vector = v, vector_size = vs \<rparr>"

definition Speaker_ID_copy :: "bool \<Rightarrow> nat \<Rightarrow> Speaker_ID \<Rightarrow> abort + Speaker_ID" where
  "Speaker_ID_copy alloc_ok junk other =
     (if \<not> alloc_ok then Inl bad_alloc
      else if length (vector other) < vector_size other then Inl undefined_behaviour
      else Inr \<lparr> name = name other,
                 vector = take (vector_size other) (vector other),
                 vector_size = junk \<rparr>)"

definition Speaker_ID_move :: "Speaker_ID \<Rightarrow> Speaker_ID" where
  "Speaker_ID_move other =
     \<lparr> name = name other, vector = vector other, vector_size = vector_size other \<rparr>"

definition Speaker_ID_eq :: "Speaker_ID \<Rightarrow> string \<Rightarrow> bool" where
  "Speaker_ID_eq this n \<longleftrightarrow> name this = n"

section \<open>The coordinator (script\_engine\_tsrt.cpp)\<close>

record Script_Engine =
  speaker_diarization :: bool
  speech_recognition :: bool
  speaker_identification :: bool
  emotion_recognition :: bool
  running :: bool
  recording :: bool
  speakers :: "Speaker_ID list"
  audio_buffer :: "Audio_Segment Ring_Buffer"

text \<open>The constructor; \<open>now\<close> is the time stamp of the default-constructed slots.\<close>

definition Script_Engine_init :: "time_point \<Rightarrow> Script_Engine" where
  "Script_Engine_init now =
     \<lparr> speaker_diarization = False, speech_recognition = False,
       speaker_identification = False, emotion_recognition = False,
       running = False, recording = False, speakers = [],
       audio_buffer = Ring_Buffer_init AUDIO_BUFFER_SIZE (Audio_Segment_default now) \<rparr>"

definition start_engine :: "Script_Engine \<Rightarrow> Script_Engine" where
  "start_engine e = e\<lparr> running := True \<rparr>"

definition stop_engine :: "Script_Engine \<Rightarrow> Script_Engine" where
  "stop_engine e = e\<lparr> running := False \<rparr>"

definition start_recording :: "Script_Engine \<Rightarrow> Script_Engine" where
  "start_recording e = e\<lparr> recording := True \<rparr>"

definition stop_recording :: "Script_Engine \<Rightarrow> Script_Engine" where
  "stop_recording e = e\<lparr> recording := False \<rparr>"

definition is_running :: "Script_Engine \<Rightarrow> bool" where
  "is_running e = running e"

definition is_recording :: "Script_Engine \<Rightarrow> bool" where
  "is_recording e = recording e"

text \<open>
  \<open>push_to_audio_buffer(Audio_Segment&& segment)\<close> passes \<open>std::move(segment)\<close> to the
  by-value parameter of \<open>push\<close>, which move-constructs it. The result holds the engine,
  the caller's moved-from segment and the heap.
\<close>

definition push_to_audio_buffer ::
  "time_point \<Rightarrow> Audio_Segment \<Rightarrow> Script_Engine \<Rightarrow> heap
     \<Rightarrow> abort + Script_Engine \<times> Audio_Segment \<times> heap" where
  "push_to_audio_buffer now segment e h =
     (case Audio_Segment_move segment of
        (val, segment') \<Rightarrow>
          (case push_Audio_Segment AUDIO_BUFFER_SIZE now val (audio_buffer e) h of
             Inl x \<Rightarrow> Inl x
           | Inr (rb, h') \<Rightarrow> Inr (e\<lparr> audio_buffer := rb \<rparr>, segment', h')))"

text \<open>
  \<open>add_speaker\<close>. \<open>reserve_ok\<close>, \<open>copy_ok\<close> and \<open>push_back_ok\<close> say whether
  \<open>speakers.reserve\<close>, the allocation of \<open>embedding_copy\<close> and the allocation inside the
  copy made by \<open>push_back\<close> succeed. \<open>embedding\<close> is the caller's array from the pointer
  on; \<open>std::copy\<close> reads \<open>VOCAL_EMBEDDINGS_SIZE\<close> values of it. Growing the vector moves
  the stored profiles, which keeps every member. The result is the status, the engine and
  what was logged.
\<close>

definition add_speaker ::
  "bool \<Rightarrow> bool \<Rightarrow> bool \<Rightarrow> nat \<Rightarrow> string \<Rightarrow> sample list \<Rightarrow> Script_Engine
     \<Rightarrow> abort + tsrt_status_code \<times> Script_Engine \<times> log_entry list" where
  "add_speaker reserve_ok copy_ok push_back_ok junk n embedding e =
     (if \<not> reserve_ok then
        Inr (INSUFFICIENT_MEMORY, e,
             [(INSUFFICIENT_MEMORY, Text ''Error allocating memory for speakers embedding'')])
      else if \<not> copy_ok then Inl bad_alloc
      else if length embedding < VOCAL_EMBEDDINGS_SIZE then Inl undefined_behaviour
      else
        (let embedding_copy = take VOCAL_EMBEDDINGS_SIZE embedding;
             speaker = Speaker_ID_init n embedding_copy VOCAL_EMBEDDINGS_SIZE
         in case Speaker_ID_copy push_back_ok junk speaker of
              Inl x \<Rightarrow> Inl x
            | Inr stored \<Rightarrow> Inr (SUCCESS, e\<lparr> speakers := speakers e @ [stored] \<rparr>, [])))"

definition remove_speaker :: "string \<Rightarrow> Script_Engine \<Rightarrow> Script_Engine" where
  "remove_speaker n e = e\<lparr> speakers := filter (\<lambda>s. \<not> Speaker_ID_eq s n) (speakers e) \<rparr>"

definition enable_speaker_diarization :: "Script_Engine \<Rightarrow> tsrt_status_code \<times> Script_Engine" where
  "enable_speaker_diarization e =
     (if speaker_diarization e \<or> running e then (INVALID_OPERATION, e)
      else (SUCCESS, e\<lparr> speaker_diarization := True \<rparr>))"

definition speaker_diarization_enabled :: "Script_Engine \<Rightarrow> bool" where
  "speaker_diarization_enabled e = speaker_diarization e"

definition enable_speech_recognition :: "Script_Engine \<Rightarrow> tsrt_status_code \<times> Script_Engine" where
  "enable_speech_recognition e =
     (if speech_recognition e \<or> running e then (INVALID_OPERATION, e)
      else (SUCCESS, e\<lparr> speech_recognition := True \<rparr>))"

definition speech_recognition_enabled :: "Script_Engine \<Rightarrow> bool" where
  "speech_recognition_enabled e = speech_recognition e"

definition enable_speaker_identification :: "Script_Engine \<Rightarrow> tsrt_status_code \<times> Script_Engine" where
  "enable_speaker_identification e =
     (if speaker_identification e \<or> running e then (INVALID_OPERATION, e)
      else (SUCCESS, e\<lparr> speaker_identification := True \<rparr>))"

definition speaker_identification_enabled :: "Script_Engine \<Rightarrow> bool" where
  "speaker_identification_enabled e = speaker_identification e"

definition enable_emotion_recognition :: "Script_Engine \<Rightarrow> tsrt_status_code \<times> Script_Engine" where
  "enable_emotion_recognition e =
     (if emotion_recognition e \<or> running e then (INVALID_OPERATION, e)
      else (SUCCESS, e\<lparr> emotion_recognition := True \<rparr>))"

definition emotion_recognition_enabled :: "Script_Engine \<Rightarrow> bool" where
  "emotion_recognition_enabled e = emotion_recognition e"

section \<open>The audio source and the filter (audio\_tsrt.cpp)\<close>

text \<open>
  The three stream operations call PortAudio; the value PortAudio returns is the argument
  \<open>paStatus\<close>. Each of them throws when PortAudio reports an error and returns
  \<open>SUCCESS\<close> otherwise. \<open>read_audio_segment\<close> writes the samples PortAudio delivers
  to the caller's array.
\<close>

definition paNoError :: PaError where "paNoError = 0"

definition start_stream :: "PaError \<Rightarrow> abort + tsrt_status_code" where
  "start_stream paStatus =
     (if paStatus \<noteq> paNoError
      then Inl (Tsrt_Exception RUNTIME_ERROR (Pa_GetErrorText paStatus))
      else Inr SUCCESS)"

definition stop_stream :: "PaError \<Rightarrow> abort + tsrt_status_code" where
  "stop_stream paStatus =
     (if paStatus \<noteq> paNoError
      then Inl (Tsrt_Exception RUNTIME_ERROR (Pa_GetErrorText paStatus))
      else Inr SUCCESS)"

definition read_audio_segment ::
  "PaError \<Rightarrow> sample list \<Rightarrow> float_ptr \<Rightarrow> nat \<Rightarrow> heap \<Rightarrow> abort + tsrt_status_code \<times> heap" where
  "read_audio_segment paStatus samples segment segment_size h =
     (if paStatus \<noteq> paNoError
      then Inl (Tsrt_Exception IO_ERROR (Pa_GetErrorText paStatus))
      else (case store segment (take segment_size samples) h of
              None \<Rightarrow> Inl undefined_behaviour
            | Some h' \<Rightarrow> Inr (SUCCESS, h')))"

text \<open>
  \<open>preprocess_audio_segment\<close> hands the array to the filter graph
  (\<open>av_buffersrc_add_frame_flags\<close>, whose return value is \<open>ret\<close>) and reads nothing
  back: the samples of the segment stay as they are.
\<close>

definition preprocess_audio_segment :: "int \<Rightarrow> float_ptr \<Rightarrow> abort + tsrt_status_code" where
  "preprocess_audio_segment ret segment =
     (if ret < 0
      then Inl (Tsrt_Exception RUNTIME_ERROR (av_error ''Error adding frame to filter'' ret))
      else Inr SUCCESS)"

section \<open>The capture stage (main.cpp, audio\_recording\_thread)\<close>

text \<open>
  The stage is a loop inside a loop. A pass runs from one loop head to the next: from the
  head of the outer loop (\<open>while (engine.is_running())\<close>) or of the inner loop
  (\<open>while (!engine.is_recording())\<close>), where a \<open>continue\<close> of the inner loop and its
  sleep lead back to. What the pass observes of the engine, of PortAudio and of the clock
  is its input.
\<close>

record Capture_Input =
  in_running :: bool
  in_recording :: bool
  in_streaming :: bool
  in_stop :: PaError
  in_start :: PaError
  in_read :: PaError
  in_samples :: "sample list"
  in_now :: time_point

datatype loop_position = Outer_Head | Inner_Head

record Capture_State =
  position :: loop_position
  err_on_last_iteration :: bool
  audio_segment :: Audio_Segment
  shared_audio_ring_buffer :: "Audio_Segment Ring_Buffer"
  capture_heap :: heap
  logged :: "log_entry list"

datatype 'a pass = Continue 'a | Exited 'a | Thrown abort

text \<open>
  What the loop does, in three places, when a stream operation has returned a status
  other than \<open>SUCCESS\<close>: throw if the flag is set, otherwise log, set the flag and
  \<open>continue\<close> (to the loop head \<open>pos\<close>).
\<close>

definition retry_or_escalate ::
  "message \<Rightarrow> message \<Rightarrow> loop_position \<Rightarrow> Capture_State \<Rightarrow> Capture_State pass" where
  "retry_or_escalate consecutive single pos st =
     (if err_on_last_iteration st
      then Thrown (Tsrt_Exception IO_ERROR consecutive)
      else Continue (st\<lparr> logged := logged st @ [(IO_ERROR, single)],
                         err_on_last_iteration := True,
                         position := pos \<rparr>))"

text \<open>The body of the inner loop.\<close>

definition idle_pass :: "Capture_Input \<Rightarrow> Capture_State \<Rightarrow> Capture_State pass" where
  "idle_pass inp st =
     (if in_streaming inp then
        (case stop_stream (in_stop inp) of
           Inl x \<Rightarrow> Thrown x
         | Inr status \<Rightarrow>
             if status \<noteq> SUCCESS
             then retry_or_escalate (Text ''Consecutive errors stopping stream'')
                    (Text ''Error stopping stream'') Inner_Head st
             else Continue (st\<lparr> position := Inner_Head \<rparr>))
      else Continue (st\<lparr> position := Inner_Head \<rparr>))"

text \<open>
  The rest of the outer loop's body, from the read on. The statement
  \<open>audio_segment.get_timestamp() = now()\<close> assigns to the temporary that
  \<open>get_timestamp\<close> returns and changes no member. \<open>push(std::move(audio_segment))\<close>
  move-constructs the parameter of \<open>push\<close>.
\<close>

definition read_and_push :: "Capture_Input \<Rightarrow> Capture_State \<Rightarrow> Capture_State pass" where
  "read_and_push inp st =
     (case read_audio_segment (in_read inp) (in_samples inp) (get_audio (audio_segment st))
             SAMPLES_PER_HALF_SEGMENT (capture_heap st) of
        Inl x \<Rightarrow> Thrown x
      | Inr (status, h1) \<Rightarrow>
          if status \<noteq> SUCCESS
          then retry_or_escalate (Text ''Consecutive errors reading audio segment'')
                 (Text ''Error reading audio segment'') Outer_Head (st\<lparr> capture_heap := h1 \<rparr>)
          else
            (case Audio_Segment_move (audio_segment st) of
               (val, moved) \<Rightarrow>
                 (case push_Audio_Segment AUDIO_BUFFER_SIZE (in_now inp) val
                         (shared_audio_ring_buffer st) h1 of
                    Inl x \<Rightarrow> Thrown x
                  | Inr (rb, h2) \<Rightarrow>
                      (case reset_audio moved h2 of
                         (fresh, h3) \<Rightarrow>
                           Continue (st\<lparr> audio_segment := fresh,
                                          shared_audio_ring_buffer := rb,
                                          capture_heap := h3,
                                          err_on_last_iteration := False,
                                          position := Outer_Head \<rparr>)))))"

definition capture_pass :: "Capture_Input \<Rightarrow> Capture_State \<Rightarrow> Capture_State pass" where
  "capture_pass inp st =
     (if \<not> in_streaming inp then
        (case start_stream (in_start inp) of
           Inl x \<Rightarrow> Thrown x
         | Inr status \<Rightarrow>
             if status \<noteq> SUCCESS
             then retry_or_escalate (Text ''Consecutive errors starting stream'')
                    (Text ''Error starting stream'') Outer_Head st
             else read_and_push inp st)
      else read_and_push inp st)"

text \<open>
  One pass. The \<open>catch\<close> blocks of the thread rethrow what they catch, so an exception
  leaves the stage as it is.
\<close>

definition audio_recording_pass :: "Capture_Input \<Rightarrow> Capture_State \<Rightarrow> Capture_State pass" where
  "audio_recording_pass inp st =
     (if position st = Outer_Head \<and> \<not> in_running inp then Exited st
      else if \<not> in_recording inp then idle_pass inp st
      else capture_pass inp st)"

fun audio_recording_run :: "Capture_Input list \<Rightarrow> Capture_State \<Rightarrow> Capture_State pass" where
  "audio_recording_run [] st = Continue st"
| "audio_recording_run (inp # inps) st =
     (case audio_recording_pass inp st of
        Continue st' \<Rightarrow> audio_recording_run inps st'
      | Exited st' \<Rightarrow> Exited st'
      | Thrown x \<Rightarrow> Thrown x)"

text \<open>The state in which the thread enters its loop.\<close>

definition audio_recording_start ::
  "time_point \<Rightarrow> time_point \<Rightarrow> Audio_Segment Ring_Buffer \<Rightarrow> heap \<Rightarrow> abort + Capture_State" where
  "audio_recording_start now0 now1 shared h =
     (case lazy_initialize now1 SAMPLES_PER_HALF_SEGMENT (Audio_Segment_default now0) h of
        Inl x \<Rightarrow> Inl x
      | Inr (seg, h') \<Rightarrow>
          Inr \<lparr> position = Outer_Head, err_on_last_iteration = False, audio_segment = seg,
                shared_audio_ring_buffer = shared, capture_heap = h', logged = [] \<rparr>)"

section \<open>The stitching stage (main.cpp, audio\_preprocessing\_thread)\<close>

record Preprocessing_Input =
  pin_running :: bool
  pin_recording :: bool
  pin_filter :: int
  pin_now :: time_point

record Preprocessing_State =
  pre_position :: loop_position
  first_segment :: bool
  full_audio_segment :: Audio_Segment
  current_timestamp :: time_point
  last_timestamp :: time_point
  raw_ring_buffer :: "Audio_Segment Ring_Buffer"
  engine :: Script_Engine
  pre_heap :: heap

text \<open>
  The state in which the thread enters its loop: \<open>full_audio_segment\<close> is
  default-constructed and lazily initialised with \<open>SAMPLES_PER_SEGMENT\<close>, and both time
  stamps are readings of the clock.
\<close>

definition audio_preprocessing_start ::
  "time_point \<Rightarrow> time_point \<Rightarrow> time_point \<Rightarrow> time_point
     \<Rightarrow> Audio_Segment Ring_Buffer \<Rightarrow> Script_Engine \<Rightarrow> heap \<Rightarrow> abort + Preprocessing_State" where
  "audio_preprocessing_start now0 now1 now2 now3 shared e h =
     (case lazy_initialize now1 SAMPLES_PER_SEGMENT (Audio_Segment_default now0) h of
        Inl x \<Rightarrow> Inl x
      | Inr (full, h') \<Rightarrow>
          Inr \<lparr> pre_position = Outer_Head, first_segment = True, full_audio_segment = full,
                current_timestamp = now2, last_timestamp = now3,
                raw_ring_buffer = shared, engine = e, pre_heap = h' \<rparr>)"

text \<open>
  The part of the loop body after the first-segment test: complete the full segment at
  its midpoint, stamp it with \<open>last_timestamp\<close>, publish it by move, reset the
  accumulator and copy the half segment to its front. \<open>latest\<close> is destroyed at the end
  of the iteration.
\<close>

definition stitch :: "time_point \<Rightarrow> Audio_Segment \<Rightarrow> Preprocessing_State \<Rightarrow> Preprocessing_State pass" where
  "stitch now latest st =
     (case memcpy (get_midpoint (full_audio_segment st)) (get_audio latest)
             SAMPLES_PER_HALF_SEGMENT (pre_heap st) of
        None \<Rightarrow> Thrown undefined_behaviour
      | Some h1 \<Rightarrow>
          (let full1 = set_timestamp (last_timestamp st) (full_audio_segment st);
               st1 = st\<lparr> last_timestamp := current_timestamp st \<rparr>
           in case push_to_audio_buffer now full1 (engine st1) h1 of
                Inl x \<Rightarrow> Thrown x
              | Inr (e, moved, h2) \<Rightarrow>
                  (case reset_audio moved h2 of
                     (fresh, h3) \<Rightarrow>
                       (case memcpy (get_audio fresh) (get_audio latest)
                               SAMPLES_PER_HALF_SEGMENT h3 of
                          None \<Rightarrow> Thrown undefined_behaviour
                        | Some h4 \<Rightarrow>
                            Continue (st1\<lparr> full_audio_segment := fresh, engine := e,
                                            pre_heap := release (audio latest) h4,
                                            pre_position := Outer_Head \<rparr>)))))"

text \<open>The loop body from the pop on.\<close>

definition pop_and_stitch :: "Preprocessing_Input \<Rightarrow> Preprocessing_State \<Rightarrow> Preprocessing_State pass" where
  "pop_and_stitch inp st =
     (case pop_Audio_Segment AUDIO_BUFFER_SIZE (raw_ring_buffer st) of
        (None, rb) \<Rightarrow> Continue (st\<lparr> raw_ring_buffer := rb, pre_position := Outer_Head \<rparr>)
      | (Some latest, rb) \<Rightarrow>
          (let st1 = st\<lparr> raw_ring_buffer := rb, current_timestamp := get_timestamp latest \<rparr>
           in case preprocess_audio_segment (pin_filter inp) (get_audio latest) of
                Inl x \<Rightarrow> Thrown x
              | Inr status \<Rightarrow>
                  if status \<noteq> SUCCESS
                  then Thrown (Tsrt_Exception UNKNOWN_ERROR (Text ''Error preprocessing audio segment''))
                  else if first_segment st1 then
                    (case memcpy (get_audio (full_audio_segment st1)) (get_audio latest)
                            SAMPLES_PER_HALF_SEGMENT (pre_heap st1) of
                       None \<Rightarrow> Thrown undefined_behaviour
                     | Some h1 \<Rightarrow>
                         Continue (st1\<lparr> first_segment := False,
                                         pre_heap := release (audio latest) h1,
                                         pre_position := Outer_Head \<rparr>))
                  else stitch (pin_now inp) latest st1))"

definition audio_preprocessing_pass ::
  "Preprocessing_Input \<Rightarrow> Preprocessing_State \<Rightarrow> Preprocessing_State pass" where
  "audio_preprocessing_pass inp st =
     (if pre_position st = Outer_Head \<and> \<not> pin_running inp then Exited st
      else if \<not> pin_recording inp then Continue (st\<lparr> pre_position := Inner_Head \<rparr>)
      else pop_and_stitch inp st)"

fun audio_preprocessing_run ::
  "Preprocessing_Input list \<Rightarrow> Preprocessing_State \<Rightarrow> Preprocessing_State pass" where
  "audio_preprocessing_run [] st = Continue st"
| "audio_preprocessing_run (inp # inps) st =
     (case audio_preprocessing_pass inp st of
        Continue st' \<Rightarrow> audio_preprocessing_run inps st'
      | Exited st' \<Rightarrow> Exited st'
      | Thrown x \<Rightarrow> Thrown x)"

text \<open>
  Reading a segment: its time stamp and the samples of its array. The windows the
  stitching stage has published are the segments that pops of the engine's buffer return.
\<close>

definition window_of :: "heap \<Rightarrow> Audio_Segment \<Rightarrow> time_point \<times> sample list option" where
  "window_of h s = (get_timestamp s, load (get_audio s) (get_size s) h)"

fun published :: "nat \<Rightarrow> heap \<Rightarrow> Audio_Segment Ring_Buffer \<Rightarrow> (time_point \<times> sample list option) list" where
  "published 0 h rb = []"
| "published (Suc k) h rb =
     (case pop_Audio_Segment AUDIO_BUFFER_SIZE rb of
        (None, rb') \<Rightarrow> []
      | (Some s, rb') \<Rightarrow> window_of h s # published k h rb')"

text \<open>
  Putting a half window with given samples and time stamp into the raw buffer, the way a
  producer does: a segment of the samples' length, filled, stamped and pushed by move.
\<close>

definition enqueue_half_window ::
  "time_point \<Rightarrow> sample list \<Rightarrow> time_point \<Rightarrow> Audio_Segment Ring_Buffer \<times> heap
     \<Rightarrow> abort + Audio_Segment Ring_Buffer \<times> heap" where
  "enqueue_half_window now samples t rbh =
     (case rbh of
        (rb, h) \<Rightarrow>
          (case Audio_Segment_sized now (length samples) h of
             (seg, h1) \<Rightarrow>
               (case store (get_audio seg) samples h1 of
                  None \<Rightarrow> Inl undefined_behaviour
                | Some h2 \<Rightarrow>
                    (case Audio_Segment_move (set_timestamp t seg) of
                       (val, moved) \<Rightarrow> push_Audio_Segment AUDIO_BUFFER_SIZE now val rb h2))))"

text \<open>
  The stitching stage run on a sequence of half windows: they are put into the raw buffer
  in order, the thread starts with the clock at \<open>start\<close> and runs one pass for each of
  them, with the engine running and recording and the filter accepting every frame. The
  result is the list of windows published to the engine's buffer.
\<close>

fun enqueue_all ::
  "time_point \<Rightarrow> (sample list \<times> time_point) list \<Rightarrow> Audio_Segment Ring_Buffer \<times> heap
     \<Rightarrow> abort + Audio_Segment Ring_Buffer \<times> heap" where
  "enqueue_all now [] rbh = Inr rbh"
| "enqueue_all now ((samples, t) # ws) rbh =
     (case enqueue_half_window now samples t rbh of
        Inl x \<Rightarrow> Inl x
      | Inr rbh' \<Rightarrow> enqueue_all now ws rbh')"

definition stitching_of ::
  "time_point \<Rightarrow> (sample list \<times> time_point) list
     \<Rightarrow> abort + (time_point \<times> sample list option) list" where
  "stitching_of start ws =
     (case enqueue_all start ws
             (Ring_Buffer_init AUDIO_BUFFER_SIZE (Audio_Segment_default start), []) of
        Inl x \<Rightarrow> Inl x
      | Inr (rb, h) \<Rightarrow>
          (case audio_preprocessing_start start start start start rb (Script_Engine_init start) h of
             Inl x \<Rightarrow> Inl x
           | Inr st \<Rightarrow>
               (case audio_preprocessing_run
                       (replicate (length ws)
                          \<lparr> pin_running = True, pin_recording = True, pin_filter = 0,
                            pin_now = start \<rparr>) st of
                  Continue st' \<Rightarrow>
                    Inr (published AUDIO_BUFFER_SIZE (pre_heap st') (audio_buffer (engine st')))
                | Exited st' \<Rightarrow>
                    Inr (published AUDIO_BUFFER_SIZE (pre_heap st') (audio_buffer (engine st')))
                | Thrown x \<Rightarrow> Inl x)))"

section \<open>Abstraction of the ring buffer used in the proofs\<close>

text \<open>
  \<open>rb_holds Size rb xs\<close>: the buffer is well formed and its unread elements, from
  \<open>tail\<close> up to \<open>head\<close>, are \<open>xs\<close>. \<open>keep_last k xs\<close> is the last \<open>k\<close> elements of \<open>xs\<close>.
\<close>

definition rb_holds :: "nat \<Rightarrow> 'a Ring_Buffer \<Rightarrow> 'a list \<Rightarrow> bool" where
  "rb_holds Size rb xs \<longleftrightarrow>
     length (buffer rb) = Size \<and> tail rb < Size \<and> length xs < Size \<and>
     head rb = (tail rb + length xs) mod Size \<and>
     (\<forall>i < length xs. buffer rb ! ((tail rb + i) mod Size) = xs ! i)"

definition keep_last :: "nat \<Rightarrow> 'a list \<Rightarrow> 'a list" where
  "keep_last k xs = drop (length xs - k) xs"

section \<open>Index wrap-around\<close>

lemma mask_eq_mod_16: "(index :: nat) AND (16 - 1) = index mod 16"
proof -
  have "index AND mask 4 = index mod 2 ^ 4"
    by (simp only: take_bit_eq_mask [symmetric] take_bit_eq_mod)
  then show ?thesis
    by (simp add: mask_eq_exp_minus_1)
qed

lemma pow2_char_aux: "0 < n \<Longrightarrow> (n::nat) AND (n - 1) = 0 \<Longrightarrow> \<exists>k. n = 2 ^ k"
proof (induction n rule: less_induct)
  case (less n)
  show ?case
  proof (cases "even n")
    case True
    then obtain m where m: "n = 2 * m" by (elim evenE)
    with less.prems have mpos: "0 < m" by simp
    have pred: "n - 1 = 2 * (m - 1) + 1" using m mpos by simp
    have "n AND (n - 1) = 2 * (m AND (m - 1))"
      unfolding pred unfolding m
      by (simp add: and_nat_rec[of "2*m"] )
    with less.prems have "m AND (m - 1) = 0" by simp
    moreover have "m < n" using m mpos by simp
    ultimately obtain k where "m = 2 ^ k" using less.IH mpos by blast
    then have "n = 2 ^ Suc k" using m by simp
    then show ?thesis by blast
  next
    case False
    then obtain m where m: "n = 2 * m + 1" by (elim oddE)
    have "n AND (n - 1) = 2 * m"
      unfolding m by (subst and_nat_rec) simp
    with less.prems have "m = 0" by simp
    then have "n = 2 ^ 0" using m by simp
    then show ?thesis by blast
  qed
qed

lemma and_pow2_minus_1: "(i::nat) AND (2 ^ k - 1) = i mod 2 ^ k"
  by (simp only: mask_eq_exp_minus_1 [symmetric] take_bit_eq_mask [symmetric] take_bit_eq_mod)

lemma wrap_index_eq_mod: "wrap_index Size i = i mod Size"
proof (cases "is_power_of_two Size")
  case True
  then obtain k where "Size = 2 ^ k"
    using pow2_char_aux[of Size] by (auto simp: is_power_of_two_def)
  then show ?thesis using True and_pow2_minus_1[of i k]
    by (simp add: wrap_index_def wrap_index_mask_def)
next
  case False
  then show ?thesis by (simp add: wrap_index_def wrap_index_mod_def)
qed

lemma wrap_index_branches_agree:
  "is_power_of_two Size \<Longrightarrow> wrap_index_mask Size index = wrap_index_mod Size index"
  using wrap_index_eq_mod [of Size index]
  by (simp add: wrap_index_def wrap_index_mod_def)

section \<open>Ring buffer: FIFO order and overwrite\<close>

lemma mod_shift_less:
  fixes t :: nat
  assumes "i < j" "j < n"
  shows "(t + i) mod n \<noteq> (t + j) mod n"
proof
  assume eq: "(t + i) mod n = (t + j) mod n"
  have "t + i \<le> t + j" using assms by simp
  then have "n dvd (t + j) - (t + i)"
    using eq by (simp only: mod_eq_dvd_iff_nat [symmetric])
  then have "n dvd j - i" by simp
  moreover have "0 < j - i" "j - i < n" using assms by simp_all
  ultimately show False using nat_dvd_not_less by blast
qed

lemma mod_shift_inj:
  fixes t :: nat
  assumes "i < n" "j < n" "(t + i) mod n = (t + j) mod n"
  shows "i = j"
proof (rule ccontr)
  assume "i \<noteq> j"
  then consider "i < j" | "j < i" by linarith
  then show False
    using mod_shift_less[of i j n t] mod_shift_less[of j i n t] assms by cases auto
qed

lemma rb_holds_init: "0 < Size \<Longrightarrow> rb_holds Size (Ring_Buffer_init Size d) []"
  by (simp add: rb_holds_def Ring_Buffer_init_def)

lemma rb_holds_pop_empty: "rb_holds Size rb [] \<Longrightarrow> pop Size rb = (None, rb)"
  by (simp add: rb_holds_def pop_def)

lemma rb_holds_pop_cons:
  assumes "rb_holds Size rb (x # xs)"
  shows "pop Size rb = (Some x, rb\<lparr> tail := (tail rb + 1) mod Size \<rparr>)"
    and "rb_holds Size (rb\<lparr> tail := (tail rb + 1) mod Size \<rparr>) xs"
proof -
  from assms have len: "length (buffer rb) = Size" and t: "tail rb < Size"
    and n: "Suc (length xs) < Size"
    and h: "head rb = (tail rb + Suc (length xs)) mod Size"
    and c: "\<forall>i < Suc (length xs). buffer rb ! ((tail rb + i) mod Size) = (x # xs) ! i"
    by (simp_all add: rb_holds_def)
  have "head rb \<noteq> tail rb"
  proof
    assume "head rb = tail rb"
    then have "(tail rb + Suc (length xs)) mod Size = (tail rb + 0) mod Size"
      using h t by simp
    then have "Suc (length xs) = 0"
      using mod_shift_inj[of "Suc (length xs)" Size 0 "tail rb"] n by simp
    then show False by simp
  qed
  moreover have "buffer rb ! tail rb = x"
    using c[rule_format, of 0] t by simp
  ultimately show "pop Size rb = (Some x, rb\<lparr> tail := (tail rb + 1) mod Size \<rparr>)"
    by (simp add: pop_def wrap_index_eq_mod)
  have "(\<forall>i < length xs. buffer rb ! (((tail rb + 1) mod Size + i) mod Size) = xs ! i)"
  proof (intro allI impI)
    fix i assume "i < length xs"
    then have "buffer rb ! ((tail rb + Suc i) mod Size) = (x # xs) ! Suc i"
      using c[rule_format, of "Suc i"] by simp
    moreover have "((tail rb + 1) mod Size + i) mod Size = (tail rb + Suc i) mod Size"
      by (simp add: mod_add_left_eq)
    ultimately show "buffer rb ! (((tail rb + 1) mod Size + i) mod Size) = xs ! i" by simp
  qed
  moreover have "head rb = ((tail rb + 1) mod Size + length xs) mod Size"
    using h by (simp add: mod_add_left_eq)
  ultimately show "rb_holds Size (rb\<lparr> tail := (tail rb + 1) mod Size \<rparr>) xs"
    using len n t by (simp add: rb_holds_def)
qed

lemma rb_holds_push_room:
  assumes "rb_holds Size rb xs" "Suc (length xs) < Size"
  shows "rb_holds Size (push Size v rb) (xs @ [v])"
proof -
  from assms have len: "length (buffer rb) = Size" and t: "tail rb < Size"
    and h: "head rb = (tail rb + length xs) mod Size"
    and c: "\<forall>i < length xs. buffer rb ! ((tail rb + i) mod Size) = xs ! i"
    by (simp_all add: rb_holds_def)
  have h': "wrap_index Size (head rb + 1) = (tail rb + Suc (length xs)) mod Size"
    by (simp add: wrap_index_eq_mod h mod_Suc_eq)
  have ne: "(tail rb + Suc (length xs)) mod Size \<noteq> tail rb"
  proof
    assume "(tail rb + Suc (length xs)) mod Size = tail rb"
    then have "(tail rb + Suc (length xs)) mod Size = (tail rb + 0) mod Size"
      using t by simp
    then have "Suc (length xs) = 0"
      using mod_shift_inj[of "Suc (length xs)" Size 0 "tail rb"] assms(2) by simp
    then show False by simp
  qed
  have p: "push Size v rb =
      \<lparr> buffer = (buffer rb)[head rb := v], head = (tail rb + Suc (length xs)) mod Size, tail = tail rb \<rparr>"
    using h' ne by (simp add: push_def Let_def)
  have hlt: "head rb < Size" using h t by simp
  have "\<forall>i < Suc (length xs). (buffer rb)[head rb := v] ! ((tail rb + i) mod Size) = (xs @ [v]) ! i"
  proof (intro allI impI)
    fix i assume i: "i < Suc (length xs)"
    show "(buffer rb)[head rb := v] ! ((tail rb + i) mod Size) = (xs @ [v]) ! i"
    proof (cases "i = length xs")
      case True
      then show ?thesis using h hlt len by simp
    next
      case False
      then have il: "i < length xs" using i by simp
      then have "(tail rb + i) mod Size \<noteq> head rb"
        using mod_shift_less[of i "length xs" Size "tail rb"] assms(2) h by simp
      then show ?thesis using c il by (simp add: nth_append)
    qed
  qed
  then show ?thesis
    using len t assms(2) by (simp add: rb_holds_def p)
qed

lemma rb_holds_push_full:
  assumes "rb_holds Size rb xs" "Suc (length xs) = Size"
  shows "rb_holds Size (push Size v rb) (tl (xs @ [v]))"
proof -
  from assms have len: "length (buffer rb) = Size" and t: "tail rb < Size"
    and h: "head rb = (tail rb + length xs) mod Size"
    and c: "\<forall>i < length xs. buffer rb ! ((tail rb + i) mod Size) = xs ! i"
    by (simp_all add: rb_holds_def)
  have hlt: "head rb < Size" using h t by simp
  have a: "wrap_index Size (head rb + 1) = (tail rb + Suc (length xs)) mod Size"
    by (simp add: wrap_index_eq_mod h mod_Suc_eq)
  have h': "wrap_index Size (head rb + 1) = tail rb"
    unfolding a assms(2) using t by simp
  have p: "push Size v rb =
      \<lparr> buffer = (buffer rb)[head rb := v], head = tail rb, tail = (tail rb + 1) mod Size \<rparr>"
    using h' by (simp add: push_def Let_def wrap_index_eq_mod)
  have l: "length (tl (xs @ [v])) = length xs" by simp
  have hd': "tail rb = ((tail rb + 1) mod Size + length xs) mod Size"
  proof -
    have b: "((tail rb + 1) mod Size + length xs) mod Size = (tail rb + Suc (length xs)) mod Size"
      by (simp add: mod_add_left_eq)
    show ?thesis unfolding b assms(2) using t by simp
  qed
  have "\<forall>i < length xs. (buffer rb)[head rb := v] ! (((tail rb + 1) mod Size + i) mod Size) = tl (xs @ [v]) ! i"
  proof (intro allI impI)
    fix i assume i: "i < length xs"
    have idx: "((tail rb + 1) mod Size + i) mod Size = (tail rb + Suc i) mod Size"
      by (simp add: mod_add_left_eq)
    have tlv: "tl (xs @ [v]) ! i = (xs @ [v]) ! Suc i"
      using i by (simp add: nth_tl)
    show "(buffer rb)[head rb := v] ! (((tail rb + 1) mod Size + i) mod Size) = tl (xs @ [v]) ! i"
    proof (cases "Suc i = length xs")
      case True
      then show ?thesis unfolding idx tlv using h hlt len by simp
    next
      case False
      then have il: "Suc i < length xs" using i by simp
      then have "(tail rb + Suc i) mod Size \<noteq> head rb"
        using mod_shift_less[of "Suc i" "length xs" Size "tail rb"] assms(2) h by simp
      moreover have "buffer rb ! ((tail rb + Suc i) mod Size) = xs ! Suc i"
        using c[rule_format, of "Suc i"] il by blast
      ultimately show ?thesis unfolding idx tlv using il by (simp add: nth_append)
    qed
  qed
  then show ?thesis
    using len t assms(2) hd' unfolding rb_holds_def p l by simp
qed

lemma keep_last_append: "keep_last k (keep_last k xs @ ys) = keep_last k (xs @ ys)"
proof (cases "length xs \<le> k")
  case True
  then show ?thesis by (simp add: keep_last_def)
next
  case False
  then have "length xs - k + length ys = length xs + length ys - k" by simp
  moreover have "length xs - (length xs - k) + length ys - k = length ys" using False by simp
  ultimately show ?thesis using False
    by (simp add: keep_last_def add.commute)
qed

lemma rb_holds_push:
  assumes "rb_holds Size rb xs"
  shows "rb_holds Size (push Size v rb) (keep_last (Size - 1) (xs @ [v]))"
proof -
  from assms have n: "length xs < Size" by (simp add: rb_holds_def)
  show ?thesis
  proof (cases "Suc (length xs) = Size")
    case True
    then have "length (xs @ [v]) - (Size - 1) = Suc 0" by auto
    then have "keep_last (Size - 1) (xs @ [v]) = tl (xs @ [v])"
      by (simp only: keep_last_def drop_Suc drop_0)
    then show ?thesis using rb_holds_push_full[OF assms True] by simp
  next
    case False
    then have r: "Suc (length xs) < Size" using n by simp
    then have "keep_last (Size - 1) (xs @ [v]) = xs @ [v]"
      by (simp add: keep_last_def)
    then show ?thesis using rb_holds_push_room[OF assms r] by simp
  qed
qed

lemma rb_holds_push_all:
  "rb_holds Size rb xs \<Longrightarrow> rb_holds Size (push_all Size vs rb) (keep_last (Size - 1) (xs @ vs))"
proof (induction vs arbitrary: rb xs)
  case Nil
  then have "length xs < Size" by (simp add: rb_holds_def)
  then show ?case using Nil by (simp add: keep_last_def)
next
  case (Cons v vs)
  have "rb_holds Size (push_all Size vs (push Size v rb))
          (keep_last (Size - 1) (keep_last (Size - 1) (xs @ [v]) @ vs))"
    by (rule Cons.IH [OF rb_holds_push [OF Cons.prems]])
  then show ?case by (simp add: keep_last_append)
qed

lemma pop_n_empty: "rb_holds Size rb [] \<Longrightarrow> pop_n Size m rb = replicate m None"
  by (induction m) (simp_all add: rb_holds_pop_empty)

lemma pop_n_holds:
  "rb_holds Size rb xs \<Longrightarrow> pop_n Size (length xs + m) rb = map Some xs @ replicate m None"
proof (induction xs arbitrary: rb)
  case Nil
  then show ?case by (simp add: pop_n_empty)
next
  case (Cons x xs)
  show ?case
    using rb_holds_pop_cons(1) [OF Cons.prems] Cons.IH [OF rb_holds_pop_cons(2) [OF Cons.prems]]
    by simp
qed

lemma drain_holds: "rb_holds Size rb xs \<Longrightarrow> drain Size k rb = take k xs"
proof (induction k arbitrary: rb xs)
  case 0
  then show ?case by simp
next
  case (Suc k)
  show ?case
  proof (cases xs)
    case Nil
    then show ?thesis using Suc.prems by (simp add: rb_holds_pop_empty)
  next
    case (Cons y ys)
    then show ?thesis
      using rb_holds_pop_cons(1) [of Size rb y ys] Suc.IH [OF rb_holds_pop_cons(2) [of Size rb y ys]]
        Suc.prems by simp
  qed
qed

lemma rb_holds_pop_snd:
  assumes "rb_holds Size rb xs"
  shows "rb_holds Size (snd (pop Size rb)) (tl xs)"
proof (cases xs)
  case Nil
  then show ?thesis using assms rb_holds_pop_empty [of Size rb] by simp
next
  case (Cons y ys)
  then show ?thesis using assms rb_holds_pop_cons [of Size rb y ys] by simp
qed

lemma rb_holds_apply_ops:
  "rb_holds Size rb xs \<Longrightarrow> \<exists>ys. rb_holds Size (apply_ops Size ops rb) ys"
proof (induction ops arbitrary: rb xs)
  case Nil
  then show ?case by auto
next
  case (Cons op ops)
  show ?case
  proof (cases op)
    case (Push v)
    then show ?thesis using Cons.IH [OF rb_holds_push [OF Cons.prems]] by simp
  next
    case Pop
    then show ?thesis using Cons.IH [OF rb_holds_pop_snd [OF Cons.prems]] by simp
  qed
qed

lemma drain_empty_iff: "(drain Size (Suc k) rb = []) = (head rb = tail rb)"
  by (simp add: pop_def)

section \<open>Claims about the ring buffer\<close>

text \<open>
  Claim C8. For capacity 16, a power of two, the bitmask computation
  \<open>index & (capacity - 1)\<close> and the modulo computation \<open>index % capacity\<close> agree on every
  index, so \<open>wrap_index\<close> returns the same value whichever branch is compiled.
\<close>

theorem wrap_index_mask_eq_mod_16:
  "is_power_of_two 16 \<and>
   index AND (16 - 1) = index mod 16 \<and>
   wrap_index_mask 16 index = wrap_index_mod 16 index \<and>
   wrap_index 16 index = wrap_index_mask 16 index \<and>
   wrap_index 16 index = wrap_index_mod 16 index"
proof -
  have p: "is_power_of_two 16"
    by (simp add: is_power_of_two_def)
  have m: "index AND (16 - 1) = index mod 16"
    by (rule mask_eq_mod_16)
  show ?thesis
    using p m by (simp add: wrap_index_def wrap_index_mask_def wrap_index_mod_def)
qed

text \<open>
  Claim C2, as amended. For every sequence of \<open>N\<close> pushes into an initially empty ring
  buffer followed by repeated pops, with \<open>N \<le> capacity - 1\<close>, the pops return exactly
  the \<open>N\<close> pushed values, in push order, and then return empty. (At \<open>N = capacity\<close>
  the last push makes \<open>head\<close> equal \<open>tail\<close> and drops the oldest value, as the
  counterexample below shows.)
\<close>

theorem ring_buffer_fifo_below_capacity:
  assumes "length xs < Size"
  shows "pop_n Size (length xs + m) (push_all Size xs (Ring_Buffer_init Size d))
           = map Some xs @ replicate m None"
proof -
  have "0 < Size" using assms by simp
  then have "rb_holds Size (push_all Size xs (Ring_Buffer_init Size d)) (keep_last (Size - 1) ([] @ xs))"
    by (intro rb_holds_push_all rb_holds_init)
  moreover have "keep_last (Size - 1) ([] @ xs) = xs" using assms by (simp add: keep_last_def)
  ultimately show ?thesis using pop_n_holds by metis
qed

theorem ring_buffer_fifo_below_capacity_witness:
  "length [10, 20, 30 :: int] < AUDIO_BUFFER_SIZE \<and>
   pop_n AUDIO_BUFFER_SIZE (length [10, 20, 30 :: int] + 2)
     (push_all AUDIO_BUFFER_SIZE [10, 20, 30 :: int] (Ring_Buffer_init AUDIO_BUFFER_SIZE 0))
     = map Some [10, 20, 30 :: int] @ replicate 2 None"
proof -
  have h: "length [10, 20, 30 :: int] < AUDIO_BUFFER_SIZE"
    by (simp add: AUDIO_BUFFER_SIZE_def)
  show ?thesis
    by (intro conjI h ring_buffer_fifo_below_capacity [OF h])
qed

text \<open>
  Sixteen distinct values pushed into the buffer of capacity 16: the pops return only the
  last fifteen.
\<close>

theorem ring_buffer_fifo_at_capacity_counterexample:
  "pop_n AUDIO_BUFFER_SIZE 17
     (push_all AUDIO_BUFFER_SIZE [1, 2, 3, 4, 5, 6, 7, 8, 9, 10, 11, 12, 13, 14, 15, 16 :: int]
        (Ring_Buffer_init AUDIO_BUFFER_SIZE 0))
   = [Some 2, Some 3, Some 4, Some 5, Some 6, Some 7, Some 8, Some 9, Some 10, Some 11,
      Some 12, Some 13, Some 14, Some 15, Some 16, None, None] \<and>
   pop_n AUDIO_BUFFER_SIZE 17
     (push_all AUDIO_BUFFER_SIZE [1, 2, 3, 4, 5, 6, 7, 8, 9, 10, 11, 12, 13, 14, 15, 16 :: int]
        (Ring_Buffer_init AUDIO_BUFFER_SIZE 0))
   \<noteq> map Some [1, 2, 3, 4, 5, 6, 7, 8, 9, 10, 11, 12, 13, 14, 15, 16 :: int] @ [None]"
  by code_simp

text \<open>
  Claim C3, as amended. For every sequence of \<open>N\<close> pushes into an initially empty ring
  buffer with \<open>N > capacity\<close>, followed by repeated pops, the pops return exactly the last
  \<open>capacity - 1\<close> pushed values, oldest of those first, and then return empty.
\<close>

theorem ring_buffer_overwrite_keeps_last:
  assumes "0 < Size" "Size < length xs"
  shows "pop_n Size (Size - 1 + m) (push_all Size xs (Ring_Buffer_init Size d))
           = map Some (drop (length xs - (Size - 1)) xs) @ replicate m None"
proof -
  have "rb_holds Size (push_all Size xs (Ring_Buffer_init Size d)) (keep_last (Size - 1) ([] @ xs))"
    using assms(1) by (intro rb_holds_push_all rb_holds_init)
  moreover have "length (keep_last (Size - 1) ([] @ xs)) = Size - 1"
    using assms by (simp add: keep_last_def)
  ultimately show ?thesis using pop_n_holds [of Size _ "keep_last (Size - 1) ([] @ xs)" m]
    by (simp add: keep_last_def)
qed

theorem ring_buffer_overwrite_keeps_last_witness:
  "0 < AUDIO_BUFFER_SIZE \<and>
   AUDIO_BUFFER_SIZE < length [1, 2, 3, 4, 5, 6, 7, 8, 9, 10, 11, 12, 13, 14, 15, 16, 17 :: int] \<and>
   pop_n AUDIO_BUFFER_SIZE (AUDIO_BUFFER_SIZE - 1 + 1)
     (push_all AUDIO_BUFFER_SIZE [1, 2, 3, 4, 5, 6, 7, 8, 9, 10, 11, 12, 13, 14, 15, 16, 17 :: int]
        (Ring_Buffer_init AUDIO_BUFFER_SIZE 0))
   = map Some (drop (length [1, 2, 3, 4, 5, 6, 7, 8, 9, 10, 11, 12, 13, 14, 15, 16, 17 :: int]
                      - (AUDIO_BUFFER_SIZE - 1))
                 [1, 2, 3, 4, 5, 6, 7, 8, 9, 10, 11, 12, 13, 14, 15, 16, 17 :: int])
     @ replicate 1 None"
proof -
  have h1: "0 < AUDIO_BUFFER_SIZE"
    by (simp add: AUDIO_BUFFER_SIZE_def)
  have h2: "AUDIO_BUFFER_SIZE < length [1, 2, 3, 4, 5, 6, 7, 8, 9, 10, 11, 12, 13, 14, 15, 16, 17 :: int]"
    by (simp add: AUDIO_BUFFER_SIZE_def)
  show ?thesis
    by (intro conjI h1 h2 ring_buffer_overwrite_keeps_last [OF h1 h2])
qed

text \<open>
  Seventeen values pushed into the buffer of capacity 16: the pops return the last fifteen,
  not the last sixteen.
\<close>

theorem ring_buffer_overwrite_counterexample:
  "pop_n AUDIO_BUFFER_SIZE 17
     (push_all AUDIO_BUFFER_SIZE [1, 2, 3, 4, 5, 6, 7, 8, 9, 10, 11, 12, 13, 14, 15, 16, 17 :: int]
        (Ring_Buffer_init AUDIO_BUFFER_SIZE 0))
   = [Some 3, Some 4, Some 5, Some 6, Some 7, Some 8, Some 9, Some 10, Some 11,
      Some 12, Some 13, Some 14, Some 15, Some 16, Some 17, None, None] \<and>
   pop_n AUDIO_BUFFER_SIZE 17
     (push_all AUDIO_BUFFER_SIZE [1, 2, 3, 4, 5, 6, 7, 8, 9, 10, 11, 12, 13, 14, 15, 16, 17 :: int]
        (Ring_Buffer_init AUDIO_BUFFER_SIZE 0))
   \<noteq> map Some [2, 3, 4, 5, 6, 7, 8, 9, 10, 11, 12, 13, 14, 15, 16, 17 :: int] @ [None]"
  by code_simp

text \<open>
  Claim C9. In every state of the ring buffer reached from the initial empty state by
  pushes and pops, the number of values that can be popped is at most \<open>capacity - 1\<close>;
  \<open>head == tail\<close> holds exactly when nothing can be popped; and when
  \<open>capacity - 1\<close> values are unread, a further push makes \<open>head\<close> equal \<open>tail\<close>,
  advances \<open>tail\<close>, and so discards the oldest unread value while appending the new one.
\<close>

theorem ring_buffer_unread_bound:
  assumes "0 < Size" "rb = apply_ops Size ops (Ring_Buffer_init Size d)"
  shows "length (drain Size k rb) \<le> Size - 1 \<and>
         (head rb = tail rb) = (drain Size (Suc k) rb = []) \<and>
         (length (drain Size k rb) = Size - 1 \<longrightarrow>
            wrap_index Size (head rb + 1) = tail rb \<and>
            tail (push Size v rb) = wrap_index Size (tail rb + 1) \<and>
            drain Size k (push Size v rb) = tl (drain Size k rb @ [v]))"
proof -
  obtain xs where xs: "rb_holds Size rb xs"
    using rb_holds_apply_ops [OF rb_holds_init [OF assms(1), of d], of ops] assms(2) by blast
  then have n: "length xs < Size" by (simp add: rb_holds_def)
  have d: "drain Size k rb = take k xs" by (rule drain_holds [OF xs])
  have bound: "length (drain Size k rb) \<le> Size - 1" using n d by simp
  have full: "wrap_index Size (head rb + 1) = tail rb \<and>
            tail (push Size v rb) = wrap_index Size (tail rb + 1) \<and>
            drain Size k (push Size v rb) = tl (drain Size k rb @ [v])"
    if f: "length (drain Size k rb) = Size - 1"
  proof -
    from f d n have lx: "Suc (length xs) = Size" and kx: "length xs \<le> k" by auto
    from xs have t: "tail rb < Size" and h: "head rb = (tail rb + length xs) mod Size"
      by (simp_all add: rb_holds_def)
    have a: "wrap_index Size (head rb + 1) = (tail rb + Suc (length xs)) mod Size"
      by (simp add: wrap_index_eq_mod h mod_Suc_eq)
    have w: "wrap_index Size (head rb + 1) = tail rb"
      unfolding a lx using t by simp
    have tl': "tail (push Size v rb) = wrap_index Size (tail rb + 1)"
      using w by (simp add: push_def Let_def)
    have "drain Size k (push Size v rb) = take k (tl (xs @ [v]))"
      by (rule drain_holds [OF rb_holds_push_full [OF xs lx]])
    then have "drain Size k (push Size v rb) = tl (drain Size k rb @ [v])"
      using kx d by simp
    then show ?thesis using w tl' by simp
  qed
  show ?thesis using bound full drain_empty_iff [of Size k rb] by blast
qed

theorem ring_buffer_unread_bound_witness:
  "0 < (4 :: nat) \<and>
   length (drain 4 10 (apply_ops 4 [Push 1, Push 2, Pop, Push 3, Push 4]
                         (Ring_Buffer_init 4 (0 :: int)))) = 4 - 1 \<and>
   wrap_index 4 (head (apply_ops 4 [Push 1, Push 2, Pop, Push 3, Push 4]
                         (Ring_Buffer_init 4 (0 :: int))) + 1)
     = tail (apply_ops 4 [Push 1, Push 2, Pop, Push 3, Push 4] (Ring_Buffer_init 4 (0 :: int))) \<and>
   drain 4 10 (push 4 5 (apply_ops 4 [Push 1, Push 2, Pop, Push 3, Push 4]
                           (Ring_Buffer_init 4 (0 :: int))))
     = tl (drain 4 10 (apply_ops 4 [Push 1, Push 2, Pop, Push 3, Push 4]
                         (Ring_Buffer_init 4 (0 :: int))) @ [5]) \<and>
   drain 4 10 (push 4 5 (apply_ops 4 [Push 1, Push 2, Pop, Push 3, Push 4]
                           (Ring_Buffer_init 4 (0 :: int)))) = [3, 4, 5]"
proof -
  have h: "0 < (4 :: nat)" by simp
  have a: "length (drain 4 10 (apply_ops 4 [Push 1, Push 2, Pop, Push 3, Push 4]
                         (Ring_Buffer_init 4 (0 :: int)))) = 4 - 1"
    by code_simp
  have e: "drain 4 10 (push 4 5 (apply_ops 4 [Push 1, Push 2, Pop, Push 3, Push 4]
                           (Ring_Buffer_init 4 (0 :: int)))) = [3, 4, 5]"
    by code_simp
  note t = ring_buffer_unread_bound [OF h refl,
        of 10 "[Push 1, Push 2, Pop, Push 3, Push 4]" "0 :: int" 5]
  note d = mp [OF conjunct2 [OF conjunct2 [OF t]] a]
  show ?thesis
    by (intro conjI h a e conjunct1 [OF d] conjunct2 [OF conjunct2 [OF d]])
qed

section \<open>The coordinator: feature flags and speakers\<close>

text \<open>
  Claim C5. For each of the four feature-enable operations: called while the engine is
  not running and the flag is unset, it returns \<open>SUCCESS\<close> and sets the flag; called a
  second time, it returns \<open>INVALID_OPERATION\<close> and the flag stays set; and called while
  \<open>running\<close> is true, as it is after \<open>start_engine\<close>, it returns
  \<open>INVALID_OPERATION\<close> whatever the state was and leaves the engine, and so the flag,
  unchanged.
\<close>

theorem enable_feature_once_before_start:
  "running (start_engine e) \<and>
   (\<not> running e \<and> \<not> speaker_diarization e \<longrightarrow>
      fst (enable_speaker_diarization e) = SUCCESS \<and>
      speaker_diarization_enabled (snd (enable_speaker_diarization e)) \<and>
      fst (enable_speaker_diarization (snd (enable_speaker_diarization e))) = INVALID_OPERATION \<and>
      speaker_diarization_enabled (snd (enable_speaker_diarization (snd (enable_speaker_diarization e))))) \<and>
   (running e \<longrightarrow> enable_speaker_diarization e = (INVALID_OPERATION, e)) \<and>
   (\<not> running e \<and> \<not> speech_recognition e \<longrightarrow>
      fst (enable_speech_recognition e) = SUCCESS \<and>
      speech_recognition_enabled (snd (enable_speech_recognition e)) \<and>
      fst (enable_speech_recognition (snd (enable_speech_recognition e))) = INVALID_OPERATION \<and>
      speech_recognition_enabled (snd (enable_speech_recognition (snd (enable_speech_recognition e))))) \<and>
   (running e \<longrightarrow> enable_speech_recognition e = (INVALID_OPERATION, e)) \<and>
   (\<not> running e \<and> \<not> speaker_identification e \<longrightarrow>
      fst (enable_speaker_identification e) = SUCCESS \<and>
      speaker_identification_enabled (snd (enable_speaker_identification e)) \<and>
      fst (enable_speaker_identification (snd (enable_speaker_identification e))) = INVALID_OPERATION \<and>
      speaker_identification_enabled (snd (enable_speaker_identification (snd (enable_speaker_identification e))))) \<and>
   (running e \<longrightarrow> enable_speaker_identification e = (INVALID_OPERATION, e)) \<and>
   (\<not> running e \<and> \<not> emotion_recognition e \<longrightarrow>
      fst (enable_emotion_recognition e) = SUCCESS \<and>
      emotion_recognition_enabled (snd (enable_emotion_recognition e)) \<and>
      fst (enable_emotion_recognition (snd (enable_emotion_recognition e))) = INVALID_OPERATION \<and>
      emotion_recognition_enabled (snd (enable_emotion_recognition (snd (enable_emotion_recognition e))))) \<and>
   (running e \<longrightarrow> enable_emotion_recognition e = (INVALID_OPERATION, e))"
proof -
  have s: "running (start_engine e)"
    by (simp add: start_engine_def)
  have f0: "(\<not> running e \<and> \<not> speaker_diarization e \<longrightarrow>
      fst (enable_speaker_diarization e) = SUCCESS \<and>
      speaker_diarization_enabled (snd (enable_speaker_diarization e)) \<and>
      fst (enable_speaker_diarization (snd (enable_speaker_diarization e))) = INVALID_OPERATION \<and>
      speaker_diarization_enabled (snd (enable_speaker_diarization (snd (enable_speaker_diarization e))))) \<and>
   (running e \<longrightarrow> enable_speaker_diarization e = (INVALID_OPERATION, e))"
    by (simp add: enable_speaker_diarization_def speaker_diarization_enabled_def)
  have f1: "(\<not> running e \<and> \<not> speech_recognition e \<longrightarrow>
      fst (enable_speech_recognition e) = SUCCESS \<and>
      speech_recognition_enabled (snd (enable_speech_recognition e)) \<and>
      fst (enable_speech_recognition (snd (enable_speech_recognition e))) = INVALID_OPERATION \<and>
      speech_recognition_enabled (snd (enable_speech_recognition (snd (enable_speech_recognition e))))) \<and>
   (running e \<longrightarrow> enable_speech_recognition e = (INVALID_OPERATION, e))"
    by (simp add: enable_speech_recognition_def speech_recognition_enabled_def)
  have f2: "(\<not> running e \<and> \<not> speaker_identification e \<longrightarrow>
      fst (enable_speaker_identification e) = SUCCESS \<and>
      speaker_identification_enabled (snd (enable_speaker_identification e)) \<and>
      fst (enable_speaker_identification (snd (enable_speaker_identification e))) = INVALID_OPERATION \<and>
      speaker_identification_enabled (snd (enable_speaker_identification (snd (enable_speaker_identification e))))) \<and>
   (running e \<longrightarrow> enable_speaker_identification e = (INVALID_OPERATION, e))"
    by (simp add: enable_speaker_identification_def speaker_identification_enabled_def)
  have f3: "(\<not> running e \<and> \<not> emotion_recognition e \<longrightarrow>
      fst (enable_emotion_recognition e) = SUCCESS \<and>
      emotion_recognition_enabled (snd (enable_emotion_recognition e)) \<and>
      fst (enable_emotion_recognition (snd (enable_emotion_recognition e))) = INVALID_OPERATION \<and>
      emotion_recognition_enabled (snd (enable_emotion_recognition (snd (enable_emotion_recognition e))))) \<and>
   (running e \<longrightarrow> enable_emotion_recognition e = (INVALID_OPERATION, e))"
    by (simp add: enable_emotion_recognition_def emotion_recognition_enabled_def)
  show ?thesis
    using s f0 f1 f2 f3 by blast
qed

theorem enable_feature_once_before_start_witness:
  "\<not> running (Script_Engine_init 0) \<and> \<not> speaker_diarization (Script_Engine_init 0) \<and>
   fst (enable_speaker_diarization (Script_Engine_init 0)) = SUCCESS \<and>
   speaker_diarization_enabled (snd (enable_speaker_diarization (Script_Engine_init 0))) \<and>
   fst (enable_speaker_diarization (snd (enable_speaker_diarization (Script_Engine_init 0)))) = INVALID_OPERATION \<and>
   running (start_engine (Script_Engine_init 0)) \<and>
   enable_speaker_diarization (start_engine (Script_Engine_init 0)) = (INVALID_OPERATION, start_engine (Script_Engine_init 0)) \<and>
   \<not> running (Script_Engine_init 0) \<and> \<not> speech_recognition (Script_Engine_init 0) \<and>
   fst (enable_speech_recognition (Script_Engine_init 0)) = SUCCESS \<and>
   speech_recognition_enabled (snd (enable_speech_recognition (Script_Engine_init 0))) \<and>
   fst (enable_speech_recognition (snd (enable_speech_recognition (Script_Engine_init 0)))) = INVALID_OPERATION \<and>
   running (start_engine (Script_Engine_init 0)) \<and>
   enable_speech_recognition (start_engine (Script_Engine_init 0)) = (INVALID_OPERATION, start_engine (Script_Engine_init 0)) \<and>
   \<not> running (Script_Engine_init 0) \<and> \<not> speaker_identification (Script_Engine_init 0) \<and>
   fst (enable_speaker_identification (Script_Engine_init 0)) = SUCCESS \<and>
   speaker_identification_enabled (snd (enable_speaker_identification (Script_Engine_init 0))) \<and>
   fst (enable_speaker_identification (snd (enable_speaker_identification (Script_Engine_init 0)))) = INVALID_OPERATION \<and>
   running (start_engine (Script_Engine_init 0)) \<and>
   enable_speaker_identification (start_engine (Script_Engine_init 0)) = (INVALID_OPERATION, start_engine (Script_Engine_init 0)) \<and>
   \<not> running (Script_Engine_init 0) \<and> \<not> emotion_recognition (Script_Engine_init 0) \<and>
   fst (enable_emotion_recognition (Script_Engine_init 0)) = SUCCESS \<and>
   emotion_recognition_enabled (snd (enable_emotion_recognition (Script_Engine_init 0))) \<and>
   fst (enable_emotion_recognition (snd (enable_emotion_recognition (Script_Engine_init 0)))) = INVALID_OPERATION \<and>
   running (start_engine (Script_Engine_init 0)) \<and>
   enable_emotion_recognition (start_engine (Script_Engine_init 0)) = (INVALID_OPERATION, start_engine (Script_Engine_init 0))"
  using enable_feature_once_before_start [of "Script_Engine_init 0"]
    enable_feature_once_before_start [of "start_engine (Script_Engine_init 0)"]
  by (simp add: Script_Engine_init_def start_engine_def)

text \<open>
  When every allocation succeeds and the caller's array holds at least
  \<open>VOCAL_EMBEDDINGS_SIZE\<close> values, \<open>add_speaker\<close> returns \<open>SUCCESS\<close> and appends one
  profile: it has the given name, and its embedding is a copy of the first
  \<open>VOCAL_EMBEDDINGS_SIZE\<close> input values, so of exactly that length. (The member
  \<open>vector_size\<close> of the stored profile is whatever the copy constructor found in memory.)
\<close>

lemma add_speaker_success:
  assumes "VOCAL_EMBEDDINGS_SIZE \<le> length embedding"
  shows "add_speaker True True True junk n embedding e =
           Inr (SUCCESS,
                e\<lparr> speakers := speakers e @
                     [\<lparr> name = n, vector = take VOCAL_EMBEDDINGS_SIZE embedding,
                        vector_size = junk \<rparr>] \<rparr>,
                [])"
    and "length (take VOCAL_EMBEDDINGS_SIZE embedding) = VOCAL_EMBEDDINGS_SIZE"
  using assms
  by (simp_all add: add_speaker_def Speaker_ID_init_def Speaker_ID_copy_def Let_def)

text \<open>
  The \<open>try\<close> block encloses \<open>speakers.reserve\<close> alone: when that allocation fails,
  \<open>add_speaker\<close> logs, returns \<open>INSUFFICIENT_MEMORY\<close> and leaves the engine unchanged.
\<close>

lemma add_speaker_reserve_fails:
  "add_speaker False copy_ok push_back_ok junk n embedding e =
     Inr (INSUFFICIENT_MEMORY, e,
          [(INSUFFICIENT_MEMORY, Text ''Error allocating memory for speakers embedding'')])"
  by (simp add: add_speaker_def)

text \<open>
  The two allocations after the \<open>try\<close> block are not guarded: when the allocation of
  \<open>embedding_copy\<close> fails, or the one that the copy constructor makes inside
  \<open>push_back\<close>, \<open>std::bad_alloc\<close> leaves \<open>add_speaker\<close> and no status is returned.
\<close>

lemma add_speaker_embedding_copy_fails:
  "add_speaker True False push_back_ok junk n embedding e = Inl bad_alloc"
  by (simp add: add_speaker_def)

lemma add_speaker_push_back_fails:
  "VOCAL_EMBEDDINGS_SIZE \<le> length embedding \<Longrightarrow>
   add_speaker True True False junk n embedding e = Inl bad_alloc"
  by (simp add: add_speaker_def Speaker_ID_init_def Speaker_ID_copy_def Let_def)

text \<open>
  Claim C7 at its failing input. The speaker \<open>Ada\<close> with an embedding of 512 values is
  added to the initial engine; \<open>reserve\<close> succeeds. When the append itself cannot be
  allocated (the copy of the profile that \<open>push_back\<close> constructs), and likewise when
  \<open>embedding_copy\<close> cannot be allocated, the call does not return
  \<open>INSUFFICIENT_MEMORY\<close>: it ends with \<open>std::bad_alloc\<close>. Only a failing \<open>reserve\<close>
  returns \<open>INSUFFICIENT_MEMORY\<close>, with the engine unchanged and the message that names
  the allocation of the embedding.
\<close>

theorem add_speaker_allocation_failure_escapes:
  "add_speaker True True False 7 ''Ada'' (replicate 512 1) (Script_Engine_init 0)
     = Inl bad_alloc \<and>
   add_speaker True False True 7 ''Ada'' (replicate 512 1) (Script_Engine_init 0)
     = Inl bad_alloc \<and>
   add_speaker False True True 7 ''Ada'' (replicate 512 1) (Script_Engine_init 0)
     = Inr (INSUFFICIENT_MEMORY, Script_Engine_init 0,
            [(INSUFFICIENT_MEMORY, Text ''Error allocating memory for speakers embedding'')]) \<and>
   add_speaker True True True 7 ''Ada'' (replicate 512 1) (Script_Engine_init 0)
     = Inr (SUCCESS,
            (Script_Engine_init 0)\<lparr> speakers :=
               [\<lparr> name = ''Ada'', vector = replicate 512 1, vector_size = 7 \<rparr>] \<rparr>,
            [])"
proof -
  have l: "VOCAL_EMBEDDINGS_SIZE \<le> length (replicate 512 (1 :: sample))"
    by (simp add: VOCAL_EMBEDDINGS_SIZE_def)
  have s: "speakers (Script_Engine_init 0) = []"
    by (simp add: Script_Engine_init_def)
  show ?thesis
    by (simp add: add_speaker_push_back_fails [OF l] add_speaker_embedding_copy_fails
        add_speaker_reserve_fails add_speaker_success(1) [OF l] s VOCAL_EMBEDDINGS_SIZE_def)
qed

section \<open>Equality of segments\<close>

text \<open>
  Claim C10. For every two segments, \<open>a == b\<close> holds exactly when their time stamps are
  equal. The arrays, the midpoints and the sizes play no part: two segments with the same
  audio and different time stamps compare unequal, and two segments with different audio
  and equal time stamps compare equal.
\<close>

theorem Audio_Segment_eq_iff_timestamp:
  "Audio_Segment_eq a b = (timestamp a = timestamp b) \<and>
   Audio_Segment_eq (a\<lparr> audio := p, midpoint := m, seg_size := n \<rparr>)
                    (b\<lparr> audio := p', midpoint := m', seg_size := n' \<rparr>)
     = Audio_Segment_eq a b \<and>
   (t \<noteq> t' \<longleftrightarrow>
     \<not> Audio_Segment_eq \<lparr> audio = p, midpoint = m, timestamp = t, seg_size = n \<rparr>
                         \<lparr> audio = p, midpoint = m, timestamp = t', seg_size = n \<rparr>) \<and>
   Audio_Segment_eq \<lparr> audio = p, midpoint = m, timestamp = t, seg_size = n \<rparr>
                    \<lparr> audio = p', midpoint = m', timestamp = t, seg_size = n' \<rparr>"
  by (simp add: Audio_Segment_eq_def)

section \<open>The midpoint of a segment\<close>

text \<open>
  The operations that allocate the array compute \<open>midpoint\<close> from it, and the move
  constructor carries a correct \<open>midpoint\<close> over with the array.
\<close>

lemma Audio_Segment_sized_midpoint:
  "midpoint_at_half (fst (Audio_Segment_sized now n h))"
  by (simp add: Audio_Segment_sized_def make_unique_def midpoint_at_half_def)

lemma lazy_initialize_midpoint:
  "lazy_initialize now n s h = Inr (s', h') \<Longrightarrow> midpoint_at_half s'"
  by (auto simp: lazy_initialize_def make_unique_def midpoint_at_half_def split: if_splits)

lemma reset_audio_midpoint:
  "midpoint_at_half (fst (reset_audio s h))"
  by (simp add: reset_audio_def make_unique_def midpoint_at_half_def)

lemma Audio_Segment_copy_midpoint:
  "Audio_Segment_copy other h = Inr (s', h') \<Longrightarrow> midpoint_at_half s'"
  by (auto simp: Audio_Segment_copy_def make_unique_def midpoint_at_half_def Let_def
      split: if_splits option.splits)

lemma Audio_Segment_move_midpoint:
  "midpoint_at_half other \<Longrightarrow> midpoint_at_half (fst (Audio_Segment_move other))"
  by (simp add: Audio_Segment_move_def midpoint_at_half_def split: option.splits)

text \<open>
  The assignments go through \<open>swap\<close>, which leaves \<open>midpoint\<close> where it was: after
  either of them \<open>midpoint\<close> is still the one of the array the segment had before.
\<close>

lemma Audio_Segment_move_assign_midpoint:
  "midpoint (fst (Audio_Segment_move_assign this other)) = midpoint this \<and>
   audio (fst (Audio_Segment_move_assign this other)) = audio other \<and>
   seg_size (fst (Audio_Segment_move_assign this other)) = seg_size other"
  by (simp add: Audio_Segment_move_assign_def Audio_Segment_swap_def)

lemma Audio_Segment_copy_assign_midpoint:
  "Audio_Segment_copy_assign this other h = Inr (s', h') \<Longrightarrow>
   midpoint s' = midpoint this \<and> audio s' = Some (length h) \<and> seg_size s' = seg_size other"
  by (auto simp: Audio_Segment_copy_assign_def Audio_Segment_copy_def Audio_Segment_swap_def
      make_unique_def Let_def split: if_splits option.splits)

text \<open>
  \<open>push\<close> of the ring buffer stores by move assignment into a slot it has just
  initialised: the stored segment owns the pushed array, and its \<open>midpoint\<close> points
  into the array of the initialisation, which \<open>push\<close> frees before it returns.
\<close>

lemma push_Audio_Segment_stale_midpoint:
  assumes "push_Audio_Segment Size now val rb h = Inr (rb', h')"
  shows "audio (buffer rb' ! head rb) = audio val \<and>
         midpoint (buffer rb' ! head rb) = Ptr (length h) (seg_size val div 2) \<and>
         h' ! length h = None"
proof -
  from assms have hd: "head rb < length (buffer rb)"
    by (simp add: push_Audio_Segment_def split: if_splits)
  from assms have nz: "seg_size val \<noteq> 0"
    by (auto simp: push_Audio_Segment_def lazy_initialize_def get_size_def split: if_splits)
  let ?slot = "\<lparr> audio = audio val, midpoint = Ptr (length h) (seg_size val div 2),
                  timestamp = timestamp val, seg_size = seg_size val \<rparr>"
  have rb': "rb' = push Size ?slot rb"
    and h': "h' = (release (audio (buffer rb ! head rb)) (h @ [Some (replicate (seg_size val) 0)]))
                    [length h := None]"
    using assms hd nz
    by (auto simp: push_Audio_Segment_def lazy_initialize_def get_size_def make_unique_def
        Audio_Segment_move_assign_def Audio_Segment_swap_def release_def)
  have "buffer rb' ! head rb = ?slot"
    using hd by (simp add: rb' push_def Let_def)
  moreover have "h' ! length h = None"
    by (simp add: h' release_def split: option.splits)
  ultimately show ?thesis by simp
qed

text \<open>
  Claim C4 at its failing input. \<open>a\<close> is constructed with size 4 and \<open>b\<close> with size 8,
  in the empty heap, so \<open>a\<close> owns array 0 and \<open>b\<close> array 1, and both satisfy the
  invariant. After \<open>a = std::move(b)\<close> the segment \<open>a\<close> owns array 1 of size 8, and its
  \<open>midpoint\<close> still points at element 2 of array 0 (which now belongs to \<open>b\<close>), not at
  element 4 of array 1. After \<open>a = b\<close> (copy assignment) \<open>a\<close> owns the new array 2, and
  its \<open>midpoint\<close> points into array 0, which the assignment has freed.
\<close>

theorem assignment_leaves_stale_midpoint:
  "midpoint_at_half (fst (Audio_Segment_sized 0 4 [])) \<and>
   midpoint_at_half (fst (Audio_Segment_sized 0 8 (snd (Audio_Segment_sized 0 4 [])))) \<and>
   fst (Audio_Segment_move_assign
          (fst (Audio_Segment_sized 0 4 []))
          (fst (Audio_Segment_sized 0 8 (snd (Audio_Segment_sized 0 4 [])))))
     = \<lparr> audio = Some 1, midpoint = Ptr 0 2, timestamp = 0, seg_size = 8 \<rparr> \<and>
   \<not> midpoint_at_half
        (fst (Audio_Segment_move_assign
                (fst (Audio_Segment_sized 0 4 []))
                (fst (Audio_Segment_sized 0 8 (snd (Audio_Segment_sized 0 4 [])))))) \<and>
   Audio_Segment_copy_assign
     (fst (Audio_Segment_sized 0 4 []))
     (fst (Audio_Segment_sized 0 8 (snd (Audio_Segment_sized 0 4 []))))
     (snd (Audio_Segment_sized 0 8 (snd (Audio_Segment_sized 0 4 []))))
     = Inr (\<lparr> audio = Some 2, midpoint = Ptr 0 2, timestamp = 0, seg_size = 8 \<rparr>,
            [None, Some (replicate 8 0), Some (replicate 8 0)])"
  by (simp add: Audio_Segment_sized_def Audio_Segment_move_assign_def Audio_Segment_swap_def
      Audio_Segment_copy_assign_def Audio_Segment_copy_def make_unique_def midpoint_at_half_def
      memcpy_def load_def store_def get_audio_def release_def Let_def)

section \<open>The capture stage and failures of the audio source\<close>

text \<open>
  The handler of the loop by itself: with the flag clear, a failure status is logged, the
  flag is set and the stage goes on; with the flag set, whichever operation set it, the
  handler throws.
\<close>

lemma retry_or_escalate_single:
  "\<not> err_on_last_iteration st \<Longrightarrow>
   retry_or_escalate consecutive single pos st =
     Continue (st\<lparr> logged := logged st @ [(IO_ERROR, single)],
                    err_on_last_iteration := True, position := pos \<rparr>)"
  by (simp add: retry_or_escalate_def)

lemma retry_or_escalate_consecutive:
  "err_on_last_iteration st \<Longrightarrow>
   retry_or_escalate consecutive single pos st = Thrown (Tsrt_Exception IO_ERROR consecutive)"
  by (simp add: retry_or_escalate_def)

text \<open>
  The stream operations never return a status other than \<open>SUCCESS\<close>: whenever
  PortAudio reports an error they throw.
\<close>

lemma stream_operations_return_SUCCESS:
  "(start_stream pa = Inr status \<longrightarrow> status = SUCCESS) \<and>
   (stop_stream pa = Inr status \<longrightarrow> status = SUCCESS) \<and>
   (read_audio_segment pa samples segment n h = Inr (status, h') \<longrightarrow> status = SUCCESS)"
  by (auto simp: start_stream_def stop_stream_def read_audio_segment_def
      split: if_splits option.splits)

text \<open>
  So the handler is never reached: a pass that goes on never sets
  \<open>err_on_last_iteration\<close> and never logs.
\<close>

lemma read_and_push_never_retries:
  "read_and_push inp st = Continue st' \<Longrightarrow>
   \<not> err_on_last_iteration st' \<and> logged st' = logged st"
  by (auto simp: read_and_push_def read_audio_segment_def
      split: if_splits option.splits sum.splits prod.splits)

lemma audio_recording_pass_never_retries:
  assumes "audio_recording_pass inp st = Continue st'"
  shows "(err_on_last_iteration st' \<longrightarrow> err_on_last_iteration st) \<and> logged st' = logged st"
proof (cases "in_recording inp")
  case False
  then have "idle_pass inp st = Continue st'"
    using assms by (simp add: audio_recording_pass_def split: if_splits)
  then show ?thesis
    by (auto simp: idle_pass_def stop_stream_def split: if_splits)
next
  case True
  then have c: "capture_pass inp st = Continue st'"
    using assms by (simp add: audio_recording_pass_def split: if_splits)
  then have "read_and_push inp st = Continue st'"
    by (auto simp: capture_pass_def start_stream_def split: if_splits)
  then show ?thesis
    using read_and_push_never_retries by blast
qed

text \<open>A failure of PortAudio in an operation that the pass performs ends the stage.\<close>

lemma read_failure_throws:
  "in_read inp \<noteq> paNoError \<Longrightarrow>
   read_and_push inp st = Thrown (Tsrt_Exception IO_ERROR (Pa_GetErrorText (in_read inp)))"
  by (simp add: read_and_push_def read_audio_segment_def)

lemma start_failure_throws:
  "\<not> in_streaming inp \<Longrightarrow> in_start inp \<noteq> paNoError \<Longrightarrow>
   capture_pass inp st = Thrown (Tsrt_Exception RUNTIME_ERROR (Pa_GetErrorText (in_start inp)))"
  by (simp add: capture_pass_def start_stream_def)

lemma stop_failure_throws:
  "in_streaming inp \<Longrightarrow> in_stop inp \<noteq> paNoError \<Longrightarrow>
   idle_pass inp st = Thrown (Tsrt_Exception RUNTIME_ERROR (Pa_GetErrorText (in_stop inp)))"
  by (simp add: idle_pass_def stop_stream_def)

text \<open>
  Claim C6 at its failing input. The engine is running, \<open>err_on_last_iteration\<close> is
  false and nothing has failed before. A single failure of \<open>Pa_ReadStream\<close> (here
  \<open>paInputOverflowed\<close>, \<open>-9981\<close>) while recording, of \<open>Pa_StartStream\<close> while
  recording with the stream inactive, or of \<open>Pa_StopStream\<close> while not recording with
  the stream active (here \<open>paUnanticipatedHostError\<close>, \<open>-9999\<close>) ends the stage with
  the exception thrown by the audio source: nothing is logged and nothing is retried.
\<close>

theorem capture_single_failure_terminates:
  "audio_recording_pass
     \<lparr> in_running = True, in_recording = True, in_streaming = True, in_stop = 0, in_start = 0,
       in_read = - 9981, in_samples = samples, in_now = now \<rparr>
     \<lparr> position = Outer_Head, err_on_last_iteration = False, audio_segment = seg,
       shared_audio_ring_buffer = rb, capture_heap = h, logged = [] \<rparr>
     = Thrown (Tsrt_Exception IO_ERROR (Pa_GetErrorText (- 9981))) \<and>
   audio_recording_pass
     \<lparr> in_running = True, in_recording = True, in_streaming = False, in_stop = 0,
       in_start = - 9999, in_read = 0, in_samples = samples, in_now = now \<rparr>
     \<lparr> position = Outer_Head, err_on_last_iteration = False, audio_segment = seg,
       shared_audio_ring_buffer = rb, capture_heap = h, logged = [] \<rparr>
     = Thrown (Tsrt_Exception RUNTIME_ERROR (Pa_GetErrorText (- 9999))) \<and>
   audio_recording_pass
     \<lparr> in_running = True, in_recording = False, in_streaming = True, in_stop = - 9999,
       in_start = 0, in_read = 0, in_samples = samples, in_now = now \<rparr>
     \<lparr> position = Outer_Head, err_on_last_iteration = False, audio_segment = seg,
       shared_audio_ring_buffer = rb, capture_heap = h, logged = [] \<rparr>
     = Thrown (Tsrt_Exception RUNTIME_ERROR (Pa_GetErrorText (- 9999)))"
  by (simp add: audio_recording_pass_def capture_pass_def idle_pass_def
      read_failure_throws start_stream_def stop_stream_def paNoError_def)

section \<open>The stitching stage\<close>

lemma list_update_Cons_numeral:
  "(x # xs)[numeral v := y] = x # xs[numeral v - 1 := y]"
  by (simp add: numeral_eq_Suc)

lemma list_update_replicate_0:
  "(replicate (numeral v) d)[0 := y] = y # replicate (numeral v - 1) d"
  by (simp add: numeral_eq_Suc)

lemma nth_replicate_numeral_0:
  "replicate (numeral v) d ! 0 = d"
  by (simp add: numeral_eq_Suc)

lemma SAMPLES_PER_HALF_SEGMENT_400: "SAMPLES_PER_HALF_SEGMENT = 400"
  by (simp add: SAMPLES_PER_HALF_SEGMENT_def SAMPLES_PER_SEGMENT_def SAMPLE_RATE_def
      MS_PER_SEC_def SEGMENT_DURATION_def)

lemma SAMPLES_PER_SEGMENT_800: "SAMPLES_PER_SEGMENT = 800"
  by (simp add: SAMPLES_PER_SEGMENT_def SAMPLE_RATE_def MS_PER_SEC_def SEGMENT_DURATION_def)

lemma published_numeral:
  "published (numeral v) h rb =
     (case pop_Audio_Segment AUDIO_BUFFER_SIZE rb of
        (None, rb') \<Rightarrow> []
      | (Some s, rb') \<Rightarrow> window_of h s # published (pred_numeral v) h rb')"
  by (simp add: numeral_eq_Suc)

lemmas segment_defs =
  Audio_Segment_sized_def Audio_Segment_default_def make_unique_def store_def load_def memcpy_def
  get_audio_def get_midpoint_def get_timestamp_def get_size_def
  set_timestamp_def Audio_Segment_move_def lazy_initialize_def reset_audio_def
  Audio_Segment_move_assign_def Audio_Segment_swap_def release_def

lemmas buffer_defs =
  Ring_Buffer_init_def wrap_index_eq_mod push_Audio_Segment_def pop_Audio_Segment_def push_def
  list_update_Cons_numeral list_update_replicate_0 nth_replicate_numeral_0

text \<open>
  The pass that consumes the first half window changes neither \<open>last_timestamp\<close> nor
  the engine: nothing is published, and \<open>last_timestamp\<close> keeps the clock reading taken
  when the thread started.
\<close>

lemma first_segment_keeps_last_timestamp:
  assumes "first_segment st" "audio_preprocessing_pass inp st = Continue st'"
  shows "last_timestamp st' = last_timestamp st \<and> engine st' = engine st"
proof (cases "pin_recording inp")
  case False
  then show ?thesis
    using assms(2) by (auto simp: audio_preprocessing_pass_def split: if_splits)
next
  case True
  then have p: "pop_and_stitch inp st = Continue st'"
    using assms(2) by (simp add: audio_preprocessing_pass_def split: if_splits)
  show ?thesis
  proof (cases "pop_Audio_Segment AUDIO_BUFFER_SIZE (raw_ring_buffer st)")
    case (Pair r rb)
    show ?thesis
    proof (cases r)
      case None
      then show ?thesis using p Pair by (auto simp: pop_and_stitch_def)
    next
      case (Some latest)
      then show ?thesis
        using p Pair assms(1)
        by (auto simp: pop_and_stitch_def Let_def split: sum.splits if_splits option.splits)
    qed
  qed
qed

lemma stitching_of_three:
  assumes "length A = SAMPLES_PER_HALF_SEGMENT" "length B = SAMPLES_PER_HALF_SEGMENT"
    "length C = SAMPLES_PER_HALF_SEGMENT"
  shows "stitching_of start [(A, t0), (B, t1), (C, t2)]
           = Inr [(start, Some (A @ B)), (t1, Some (B @ C))]"
proof -
  from assms have len: "length A = 400" "length B = 400" "length C = 400"
    by (simp_all add: SAMPLES_PER_HALF_SEGMENT_400)
  let ?d = "Audio_Segment_default start"
  let ?inp = "\<lparr> pin_running = True, pin_recording = True, pin_filter = 0, pin_now = start \<rparr>"
  let ?z = "replicate 400 (0 :: sample)"
  let ?a = "\<lparr> audio = Some 0, midpoint = Ptr 1 200, timestamp = t0, seg_size = 400 \<rparr>"
  let ?b = "\<lparr> audio = Some 2, midpoint = Ptr 3 200, timestamp = t1, seg_size = 400 \<rparr>"
  let ?c = "\<lparr> audio = Some 4, midpoint = Ptr 5 200, timestamp = t2, seg_size = 400 \<rparr>"
  let ?ab = "\<lparr> audio = Some 6, midpoint = Ptr 7 400, timestamp = start, seg_size = 800 \<rparr>"
  let ?bc = "\<lparr> audio = Some 8, midpoint = Ptr 9 400, timestamp = t1, seg_size = 800 \<rparr>"
  let ?rb0 = "\<lparr> buffer = ?a # ?b # ?c # replicate 13 ?d, head = 3, tail = 0 \<rparr>"
  let ?rb1 = "\<lparr> buffer = ?a\<lparr> audio := None \<rparr> # ?b # ?c # replicate 13 ?d, head = 3, tail = 1 \<rparr>"
  let ?rb2 = "\<lparr> buffer = ?a\<lparr> audio := None \<rparr> # ?b\<lparr> audio := None \<rparr> # ?c # replicate 13 ?d,
                head = 3, tail = 2 \<rparr>"
  let ?rb3 = "\<lparr> buffer = ?a\<lparr> audio := None \<rparr> # ?b\<lparr> audio := None \<rparr> # ?c\<lparr> audio := None \<rparr>
                         # replicate 13 ?d,
                head = 3, tail = 3 \<rparr>"
  let ?e0 = "Script_Engine_init start"
  let ?e1 = "?e0\<lparr> audio_buffer := \<lparr> buffer = ?ab # replicate 15 ?d, head = 1, tail = 0 \<rparr> \<rparr>"
  let ?e2 = "?e0\<lparr> audio_buffer := \<lparr> buffer = ?ab # ?bc # replicate 14 ?d, head = 2, tail = 0 \<rparr> \<rparr>"
  let ?h0 = "[Some A, None, Some B, None, Some C, None]"
  let ?h3 = "[None, None, None, None, None, None, Some (A @ B), None, Some (B @ C), None,
              Some (C @ ?z)]"
  let ?st0 = "\<lparr> pre_position = Outer_Head, first_segment = True,
      full_audio_segment = \<lparr> audio = Some 6, midpoint = Ptr 6 400, timestamp = start, seg_size = 800 \<rparr>,
      current_timestamp = start, last_timestamp = start,
      raw_ring_buffer = ?rb0, engine = ?e0,
      pre_heap = [Some A, None, Some B, None, Some C, None, Some (replicate 800 0)] \<rparr>"
  let ?st1 = "\<lparr> pre_position = Outer_Head, first_segment = False,
      full_audio_segment = \<lparr> audio = Some 6, midpoint = Ptr 6 400, timestamp = start, seg_size = 800 \<rparr>,
      current_timestamp = t0, last_timestamp = start,
      raw_ring_buffer = ?rb1, engine = ?e0,
      pre_heap = [None, None, Some B, None, Some C, None, Some (A @ ?z)] \<rparr>"
  let ?st2 = "\<lparr> pre_position = Outer_Head, first_segment = False,
      full_audio_segment = \<lparr> audio = Some 8, midpoint = Ptr 8 400, timestamp = start, seg_size = 800 \<rparr>,
      current_timestamp = t1, last_timestamp = t1,
      raw_ring_buffer = ?rb2, engine = ?e1,
      pre_heap = [None, None, None, None, Some C, None, Some (A @ B), None, Some (B @ ?z)] \<rparr>"
  let ?st3 = "\<lparr> pre_position = Outer_Head, first_segment = False,
      full_audio_segment = \<lparr> audio = Some 10, midpoint = Ptr 10 400, timestamp = t1, seg_size = 800 \<rparr>,
      current_timestamp = t2, last_timestamp = t2,
      raw_ring_buffer = ?rb3, engine = ?e2,
      pre_heap = ?h3 \<rparr>"
  have enq: "enqueue_all start [(A, t0), (B, t1), (C, t2)]
               (Ring_Buffer_init AUDIO_BUFFER_SIZE ?d, []) = Inr (?rb0, ?h0)"
    using len
    by (simp add: segment_defs buffer_defs enqueue_half_window_def AUDIO_BUFFER_SIZE_def)
  have start: "audio_preprocessing_start start start start start ?rb0 ?e0 ?h0 = Inr ?st0"
    by (simp add: audio_preprocessing_start_def segment_defs SAMPLES_PER_SEGMENT_800)
  have p1: "audio_preprocessing_pass ?inp ?st0 = Continue ?st1"
    using len
    by (simp add: audio_preprocessing_pass_def pop_and_stitch_def preprocess_audio_segment_def
        segment_defs buffer_defs AUDIO_BUFFER_SIZE_def SAMPLES_PER_HALF_SEGMENT_400)
  have p2: "audio_preprocessing_pass ?inp ?st1 = Continue ?st2"
    using len
    by (simp add: audio_preprocessing_pass_def pop_and_stitch_def preprocess_audio_segment_def
        stitch_def push_to_audio_buffer_def Script_Engine_init_def
        segment_defs buffer_defs AUDIO_BUFFER_SIZE_def SAMPLES_PER_HALF_SEGMENT_400)
  have p3: "audio_preprocessing_pass ?inp ?st2 = Continue ?st3"
    using len
    by (simp add: audio_preprocessing_pass_def pop_and_stitch_def preprocess_audio_segment_def
        stitch_def push_to_audio_buffer_def Script_Engine_init_def
        segment_defs buffer_defs AUDIO_BUFFER_SIZE_def SAMPLES_PER_HALF_SEGMENT_400)
  have run: "audio_preprocessing_run [?inp, ?inp, ?inp] ?st0 = Continue ?st3"
    by (simp only: audio_preprocessing_run.simps p1 p2 p3 pass.case)
  have pub: "published AUDIO_BUFFER_SIZE (pre_heap ?st3) (audio_buffer (engine ?st3))
               = [(start, Some (A @ B)), (t1, Some (B @ C))]"
    using len
    by (simp add: AUDIO_BUFFER_SIZE_def published_numeral window_of_def
        segment_defs buffer_defs)
  have rep: "replicate (length [(A, t0), (B, t1), (C, t2)]) ?inp = [?inp, ?inp, ?inp]"
    by simp
  show ?thesis
    unfolding stitching_of_def rep enq sum.case prod.case start run pass.case pub ..
qed

lemma stitching_of_one:
  assumes "length A = SAMPLES_PER_HALF_SEGMENT"
  shows "stitching_of start [(A, t0)] = Inr []"
proof -
  from assms have len: "length A = 400"
    by (simp add: SAMPLES_PER_HALF_SEGMENT_400)
  let ?d = "Audio_Segment_default start"
  let ?inp = "\<lparr> pin_running = True, pin_recording = True, pin_filter = 0, pin_now = start \<rparr>"
  let ?a = "\<lparr> audio = Some 0, midpoint = Ptr 1 200, timestamp = t0, seg_size = 400 \<rparr>"
  let ?rb0 = "\<lparr> buffer = ?a # replicate 15 ?d, head = 1, tail = 0 \<rparr>"
  let ?rb1 = "\<lparr> buffer = ?a\<lparr> audio := None \<rparr> # replicate 15 ?d, head = 1, tail = 1 \<rparr>"
  let ?e0 = "Script_Engine_init start"
  let ?h0 = "[Some A, None]"
  let ?st0 = "\<lparr> pre_position = Outer_Head, first_segment = True,
      full_audio_segment = \<lparr> audio = Some 2, midpoint = Ptr 2 400, timestamp = start, seg_size = 800 \<rparr>,
      current_timestamp = start, last_timestamp = start,
      raw_ring_buffer = ?rb0, engine = ?e0,
      pre_heap = [Some A, None, Some (replicate 800 0)] \<rparr>"
  let ?st1 = "\<lparr> pre_position = Outer_Head, first_segment = False,
      full_audio_segment = \<lparr> audio = Some 2, midpoint = Ptr 2 400, timestamp = start, seg_size = 800 \<rparr>,
      current_timestamp = t0, last_timestamp = start,
      raw_ring_buffer = ?rb1, engine = ?e0,
      pre_heap = [None, None, Some (A @ replicate 400 0)] \<rparr>"
  have enq: "enqueue_all start [(A, t0)] (Ring_Buffer_init AUDIO_BUFFER_SIZE ?d, []) = Inr (?rb0, ?h0)"
    using len
    by (simp add: segment_defs buffer_defs enqueue_half_window_def AUDIO_BUFFER_SIZE_def)
  have start: "audio_preprocessing_start start start start start ?rb0 ?e0 ?h0 = Inr ?st0"
    by (simp add: audio_preprocessing_start_def segment_defs SAMPLES_PER_SEGMENT_800)
  have p1: "audio_preprocessing_pass ?inp ?st0 = Continue ?st1"
    using len
    by (simp add: audio_preprocessing_pass_def pop_and_stitch_def preprocess_audio_segment_def
        segment_defs buffer_defs AUDIO_BUFFER_SIZE_def SAMPLES_PER_HALF_SEGMENT_400)
  have run: "audio_preprocessing_run [?inp] ?st0 = Continue ?st1"
    by (simp only: audio_preprocessing_run.simps p1 pass.case)
  have pub: "published AUDIO_BUFFER_SIZE (pre_heap ?st1) (audio_buffer (engine ?st1)) = []"
    by (simp add: AUDIO_BUFFER_SIZE_def published_numeral Script_Engine_init_def buffer_defs)
  have rep: "replicate (length [(A, t0)]) ?inp = [?inp]"
    by simp
  show ?thesis
    unfolding stitching_of_def rep enq sum.case prod.case start run pass.case pub ..
qed

text \<open>
  Claim C1 at its failing input. The half windows are 400 samples each: \<open>A\<close> (every
  sample the bit pattern 1) stamped 100, \<open>B\<close> (2) stamped 125 and \<open>C\<close> (3) stamped
  150; the stitching thread started when the clock read 90. The stage publishes exactly
  two windows, \<open>[A|B]\<close> and then \<open>[B|C]\<close>, and after the first half window alone it has
  published none. The second window is stamped 125. The first window is stamped 90, the
  clock reading at the start of the thread, and not 100, the time stamp of \<open>A\<close>: the
  branch for the first segment does not assign \<open>last_timestamp\<close>.
\<close>

theorem stitching_first_window_stamp:
  "stitching_of 90 [(replicate 400 1, 100), (replicate 400 2, 125), (replicate 400 3, 150)]
     = Inr [(90, Some (replicate 400 1 @ replicate 400 2)),
            (125, Some (replicate 400 2 @ replicate 400 3))] \<and>
   stitching_of 90 [(replicate 400 1, 100)] = Inr []"
proof -
  have l: "length (replicate 400 (w :: sample)) = SAMPLES_PER_HALF_SEGMENT" for w
    by (simp add: SAMPLES_PER_HALF_SEGMENT_400)
  show ?thesis
    by (simp only: stitching_of_three [OF l l l] stitching_of_one [OF l] simp_thms)
qed

end
